theory Spec2Isabelle
  imports Main "HOL-Library.Word"
begin

unbundle bit_operations_syntax

section \<open>Undo record sets (src/backend/access/undo/undorecordset.c)\<close>

text \<open>
  A shallow embedding of the undo-record-set layer.  Every C function of
  \<^verbatim>\<open>undorecordset.c\<close> that a property below talks about is a HOL function of the same
  name; a pointer argument that the C code mutates is a value that the HOL function takes
  and returns.  Failure is a value of type \<open>error\<close>:
  \<^item> \<open>ERROR\<close> and \<open>PANIC\<close> are \<^verbatim>\<open>elog(ERROR, ...)\<close> and \<^verbatim>\<open>elog(PANIC, ...)\<close>;
  \<^item> \<open>AssertFailed\<close> is a failing \<^verbatim>\<open>Assert(...)\<close> (an assert-enabled build);
  \<^item> \<open>UNDEFINED\<close> is C undefined behaviour: an array read or write out of range, a read
    of an uninitialised variable, a dereference of a null or stale pointer.
\<close>

datatype error =
    ERROR string
  | PANIC string
  | AssertFailed string
  | UNDEFINED string

type_synonym byte = "8 word"

subsection \<open>Compile-time constants of headers that are not under src/\<close>

text \<open>
  \<^verbatim>\<open>UndoRecordSetType\<close> is declared in access/undorecordset.h (not under src/); the file
  names two of its values and treats every other value as unknown.
\<close>

datatype UndoRecordSetType = URST_TRANSACTION | URST_FOO | URST_UNKNOWN

text \<open>
  \<^verbatim>\<open>BLCKSZ\<close> (pg_config.h), \<^verbatim>\<open>UndoLogBlockHeaderSize\<close> and \<^verbatim>\<open>UndoLogMaxSize\<close>
  (access/undolog.h) and the integer values of the enum \<^verbatim>\<open>UndoRecordSetType\<close> are used by
  the code but declared outside the source files at hand.  They are parameters of the
  model.  \<^verbatim>\<open>sizeof(UndoLogOffset)\<close> is 8: the type is \<^verbatim>\<open>uint64\<close> (access/undodefs.h).
\<close>

record undo_config =
  BLCKSZ :: nat
  UndoLogBlockHeaderSize :: nat
  UndoLogMaxSize :: nat
  urst_value :: "UndoRecordSetType \<Rightarrow> nat"

definition sizeof_UndoLogOffset :: nat where
  "sizeof_UndoLogOffset = 8"

text \<open>
  \<^verbatim>\<open>sizeof(UndoRecordSetChunkHeader)\<close>: two 8-byte fields and an enum, padded to the
  alignment of the 8-byte fields (the source's own remark: "should perhaps make type a
  char and not include the padding").
\<close>

definition UndoRecordSetChunkHeaderSize :: nat where
  "UndoRecordSetChunkHeaderSize = 24"

subsection \<open>Pages\<close>

text \<open>
  The bytes of an integer object of \<open>n\<close> bytes, lowest byte first (a little-endian host),
  and the value of such an object.
\<close>

primrec le_bytes :: "nat \<Rightarrow> nat \<Rightarrow> byte list" where
  "le_bytes 0 v = []"
| "le_bytes (Suc n) v = of_nat v # le_bytes n (v div 256)"

primrec le_value :: "byte list \<Rightarrow> nat" where
  "le_value [] = 0"
| "le_value (b # bs) = unat b + 256 * le_value bs"

text \<open>A page is \<^verbatim>\<open>BLCKSZ\<close> raw bytes, its header included.\<close>

record Page =
  contents :: "byte list"

text \<open>
  \<^verbatim>\<open>memcpy(page + off, src, n)\<close> into the raw bytes of a page; \<open>None\<close> when the copy
  would run past the end of the page.
\<close>

definition memcpy_page :: "byte list \<Rightarrow> nat \<Rightarrow> byte list \<Rightarrow> byte list option" where
  "memcpy_page pg off src =
     (if off + length src \<le> length pg
      then Some (take off pg @ src @ drop (off + length src) pg)
      else None)"

text \<open>
  Modelled from the spec: the "lightweight page-local cursor field" is \<^verbatim>\<open>pd_lower\<close> of
  \<^verbatim>\<open>PageHeaderData\<close> (storage/bufpage.h, not under src/), a \<^verbatim>\<open>uint16\<close> at bytes 12 and
  13 of the page, after the 8-byte \<^verbatim>\<open>pd_lsn\<close> and the 16-bit \<^verbatim>\<open>pd_checksum\<close> and
  \<^verbatim>\<open>pd_flags\<close>.  \<open>pd_lower\<close> reads the field, \<open>set_pd_lower\<close> is the assignment
  \<^verbatim>\<open>header->pd_lower = v\<close>, which keeps the low 16 bits of \<open>v\<close>; \<open>None\<close> when the field
  lies past the end of the page.
\<close>

definition pd_lower :: "Page \<Rightarrow> nat" where
  "pd_lower pg = le_value (take 2 (drop 12 (contents pg)))"

definition set_pd_lower :: "nat \<Rightarrow> Page \<Rightarrow> Page option" where
  "set_pd_lower v pg =
     (case memcpy_page (contents pg) 12 (le_bytes 2 v) of
        None \<Rightarrow> None
      | Some bs \<Rightarrow> Some (pg\<lparr>contents := bs\<rparr>))"

subsection \<open>The opcode stream: update entries\<close>

text \<open>
  \<^verbatim>\<open>write_update_ops_header(ops, offset, size)\<close>: the four bytes stored into \<^verbatim>\<open>ops\<close>.
  Both arguments are \<^verbatim>\<open>uint16\<close>.
\<close>

definition write_update_ops_header :: "16 word \<Rightarrow> 16 word \<Rightarrow> byte list" where
  "write_update_ops_header offset sz =
     [ucast (0x80 OR drop_bit 8 offset),
      ucast (offset AND 0xff),
      ucast (drop_bit 8 sz),
      ucast (sz AND 0xff)]"

text \<open>The four assertions at the head of \<^verbatim>\<open>write_update_ops_header\<close>.\<close>

definition write_update_ops_header_asserts :: "undo_config \<Rightarrow> 16 word \<Rightarrow> 16 word \<Rightarrow> bool" where
  "write_update_ops_header_asserts cfg offset sz \<longleftrightarrow>
     BLCKSZ cfg \<le> 0x8000 \<and>
     unat offset < BLCKSZ cfg \<and>
     unat offset + unat sz \<le> BLCKSZ cfg \<and>
     unat offset \<ge> UndoLogBlockHeaderSize cfg"

text \<open>
  The same assertions in the order in which the function makes them: the first that
  fails, if any.
\<close>

definition write_update_ops_header_failure :: "undo_config \<Rightarrow> 16 word \<Rightarrow> 16 word \<Rightarrow> error option" where
  "write_update_ops_header_failure cfg offset sz =
     (if \<not> BLCKSZ cfg \<le> 0x8000 then Some (AssertFailed ''BLCKSZ <= 0x8000'')
      else if \<not> unat offset < BLCKSZ cfg then Some (AssertFailed ''offset < BLCKSZ'')
      else if \<not> unat offset + unat sz \<le> BLCKSZ cfg
      then Some (AssertFailed ''(offset + size) <= BLCKSZ'')
      else if \<not> unat offset \<ge> UndoLogBlockHeaderSize cfg
      then Some (AssertFailed ''offset >= UndoLogBlockHeaderSize'')
      else None)"

text \<open>
  The loop "Apply all updates to this page" of \<^verbatim>\<open>UndoUpdateInRecovery\<close>.  The list
  \<open>ops\<close> is the part of the stream from the C pointer \<^verbatim>\<open>ops\<close> up to \<^verbatim>\<open>ops_end\<close>, so
  \<^verbatim>\<open>ops < ops_end\<close> is \<open>ops \<noteq> []\<close>, and \<^verbatim>\<open>ops + n >= ops_end\<close> is \<open>n \<ge> length ops\<close>.
  Skipping an insert entry may step past \<^verbatim>\<open>ops_end\<close>, which ends the loop.
\<close>

function apply_update_ops :: "byte list \<Rightarrow> byte list \<Rightarrow> error + byte list" where
  "apply_update_ops ops pg =
     (case ops of
        [] \<Rightarrow> Inr pg
      | b0 # _ \<Rightarrow>
          if b0 = 0 then Inl (AssertFailed ''*ops != 0'')
          else if b0 AND 0x80 = 0 then apply_update_ops (drop (unat b0 + 1) ops) pg
          else if 4 \<ge> length ops then Inl (ERROR ''corrupted undo update instruction'')
          else
            let offset = (push_bit 8 (ucast (ops ! 0 AND 0x7f)) OR ucast (ops ! 1) :: 16 word);
                sz = (push_bit 8 (ucast (ops ! 2)) OR ucast (ops ! 3) :: 16 word);
                ops' = drop 4 ops
            in if unat sz > length ops' then Inl (ERROR ''corrupted undo update instruction'')
               else (case memcpy_page pg (unat offset) (take (unat sz) ops') of
                       None \<Rightarrow> Inl (UNDEFINED ''memcpy past the end of the page'')
                     | Some pg' \<Rightarrow> apply_update_ops (drop (unat sz) ops') pg'))"
  by pat_completeness auto
termination
  by (relation "measure (\<lambda>(ops, pg). length ops)") auto

subsection \<open>Undo logs and undo pointers\<close>

text \<open>
  Log numbers, offsets within a log and buffer handles.  \<^verbatim>\<open>UndoLogOffset\<close> and
  \<^verbatim>\<open>UndoRecPtr\<close> are \<^verbatim>\<open>uint64\<close>, \<^verbatim>\<open>UndoLogNumber\<close> and \<^verbatim>\<open>Buffer\<close> are \<^verbatim>\<open>int\<close>.
  Offsets are natural numbers here; the one subtraction of offsets in the file
  (\<^verbatim>\<open>insert - header\<close> in \<^verbatim>\<open>UndoMarkClosed\<close>) is written with its wrap-around.
\<close>

type_synonym UndoLogOffset = nat
type_synonym UndoLogNumber = nat
type_synonym Buffer = int

text \<open>
  Modelled from the spec: the undo pointer macros of access/undolog.h
  (\<^verbatim>\<open>MakeUndoRecPtr\<close>, \<^verbatim>\<open>UndoRecPtrGetBlockNum\<close>, \<^verbatim>\<open>UndoRecPtrGetPageOffset\<close>,
  \<^verbatim>\<open>UndoLogOffsetPlusUsableBytes\<close>, \<^verbatim>\<open>UndoRecPtrPlusUsableBytes\<close>) are not under src/.
  The spec describes an undo pointer as "a value that names an exact byte position within
  a specific undo log", to be represented as a "value type pairing (log identifier, byte
  offset) with operations advance by N usable bytes, skipping page headers, and decompose
  into (block, in-page offset)".
\<close>

record UndoRecPtr =
  urp_logno :: UndoLogNumber
  urp_offset :: UndoLogOffset

definition MakeUndoRecPtr :: "UndoLogNumber \<Rightarrow> UndoLogOffset \<Rightarrow> UndoRecPtr" where
  "MakeUndoRecPtr l off = \<lparr>urp_logno = l, urp_offset = off\<rparr>"

definition UndoRecPtrGetBlockNum :: "undo_config \<Rightarrow> UndoRecPtr \<Rightarrow> nat" where
  "UndoRecPtrGetBlockNum cfg urp = urp_offset urp div BLCKSZ cfg"

definition UndoRecPtrGetPageOffset :: "undo_config \<Rightarrow> UndoRecPtr \<Rightarrow> nat" where
  "UndoRecPtrGetPageOffset cfg urp = urp_offset urp mod BLCKSZ cfg"

text \<open>
  Modelled from the spec: "advance by N usable bytes, skipping page headers".  The usable
  bytes of a page are those after its block header; an offset is turned into the count of
  usable bytes before it, the count is advanced, and turned back.
\<close>

definition UndoLogOffsetPlusUsableBytes :: "undo_config \<Rightarrow> UndoLogOffset \<Rightarrow> nat \<Rightarrow> UndoLogOffset" where
  "UndoLogOffsetPlusUsableBytes cfg off n =
     (let usable_per_page = BLCKSZ cfg - UndoLogBlockHeaderSize cfg;
          byte_no = (off div BLCKSZ cfg) * usable_per_page
                      + (off mod BLCKSZ cfg - UndoLogBlockHeaderSize cfg) + n
      in (byte_no div usable_per_page) * BLCKSZ cfg
           + UndoLogBlockHeaderSize cfg + byte_no mod usable_per_page)"

definition UndoRecPtrPlusUsableBytes :: "undo_config \<Rightarrow> UndoRecPtr \<Rightarrow> nat \<Rightarrow> UndoRecPtr" where
  "UndoRecPtrPlusUsableBytes cfg urp n =
     MakeUndoRecPtr (urp_logno urp) (UndoLogOffsetPlusUsableBytes cfg (urp_offset urp) n)"

text \<open>
  The fields of \<^verbatim>\<open>UndoLogSlot\<close> (access/undolog.h) that the file reads and writes:
  \<^verbatim>\<open>meta.insert\<close> and \<^verbatim>\<open>end\<close>.  A slot is identified by the number of its log, so a
  pointer to a slot is a log number and \<^verbatim>\<open>slot->logno\<close> is that number.
\<close>

record UndoLogSlot =
  meta_insert :: UndoLogOffset
  log_end :: UndoLogOffset

subsection \<open>Record sets\<close>

text \<open>
  \<^verbatim>\<open>struct UndoRecordSetChunk\<close>.  The two-element arrays are two fields each; \<open>-1\<close> in a
  buffer index means "absent".  \<^verbatim>\<open>slot\<close> is \<open>chunk_slot\<close> (the record set has a field
  \<^verbatim>\<open>slot\<close> of its own).
\<close>

record UndoRecordSetChunk =
  chunk_slot :: UndoLogNumber
  chunk_header_offset :: UndoLogOffset
  chunk_header_buffer_index0 :: int
  chunk_header_buffer_index1 :: int
  chunk_header_ops0 :: "byte list"
  chunk_header_ops1 :: "byte list"

text \<open>\<^verbatim>\<open>struct UndoRecordSetChunkHeader\<close>; \<open>previous_chunk\<close> is the raw 64-bit pointer.\<close>

record UndoRecordSetChunkHeader =
  hdr_size :: UndoLogOffset
  hdr_previous_chunk :: nat
  hdr_type :: UndoRecordSetType

text \<open>
  \<^verbatim>\<open>struct UndoRecordSet\<close>.  An array with its element count is a list:
  \<^verbatim>\<open>nchunks\<close> is \<open>length (chunks urs)\<close> and \<^verbatim>\<open>nbuffers\<close> is \<open>length (buffers urs)\<close>; the
  capacities \<^verbatim>\<open>max_chunks\<close> and \<^verbatim>\<open>max_buffers\<close> are kept.  \<^verbatim>\<open>type\<close> is \<open>urs_type\<close>.
  A null \<^verbatim>\<open>slot\<close> is \<open>None\<close>.
\<close>

record UndoRecordSet =
  urs_type :: UndoRecordSetType
  persistence :: char
  chunks :: "UndoRecordSetChunk list"
  max_chunks :: nat
  first_block_id :: byte
  buffers :: "Buffer list"
  max_buffers :: nat
  previous_chunk :: nat
  need_chunk_header :: bool
  need_type_header :: bool
  chunk_header :: UndoRecordSetChunkHeader
  type_header :: "byte list"
  type_header_size :: nat
  slot :: "UndoLogNumber option"
  closed :: bool
  recent_end :: UndoLogOffset

abbreviation nchunks :: "UndoRecordSet \<Rightarrow> nat" where
  "nchunks urs \<equiv> length (chunks urs)"

abbreviation nbuffers :: "UndoRecordSet \<Rightarrow> nat" where
  "nbuffers urs \<equiv> length (buffers urs)"

subsection \<open>The world outside the file\<close>

text \<open>
  Calls into the buffer manager, the WAL and the undo log allocator whose effect the file
  does not read back are recorded, in order, with their arguments.  Bytes handed to
  \<^verbatim>\<open>XLogRegisterBufData\<close> are recorded as they are at the time of the call.
\<close>

datatype lock_mode = BUFFER_LOCK_UNLOCK | BUFFER_LOCK_EXCLUSIVE

datatype regbuf_flags = REGBUF_NONE | REGBUF_WILL_INIT

datatype call =
    MarkBufferDirty Buffer
  | LockBuffer Buffer lock_mode
  | ReleaseBuffer Buffer
  | XLogRegisterBuffer byte Buffer regbuf_flags
  | XLogRegisterBufData byte "byte list"
  | PageSetLSN Buffer nat
  | UndoLogPut UndoLogNumber
  | UndoLogMarkFull UndoLogNumber

text \<open>
  The state the file works on: the slots of the undo logs (shared memory), the logs that
  \<^verbatim>\<open>UndoLogGetForPersistence\<close> will hand out next, the pages of the buffer pool by buffer
  handle, the buffer that the buffer manager returns for a block of a log and the tag of
  a buffer (\<^verbatim>\<open>BufferGetTag\<close>), the flag \<^verbatim>\<open>InRecovery\<close>, the recorded calls; and the
  process-local state of the file itself: the record sets that are allocated (by address),
  the list \<^verbatim>\<open>UndoRecordSetList\<close> of their addresses, whether \<^verbatim>\<open>UndoRecordSetContext\<close> has
  been created and with it the exit callback registered, and the next address that
  \<^verbatim>\<open>palloc0\<close> returns.
\<close>

record world =
  slots :: "UndoLogNumber \<Rightarrow> UndoLogSlot"
  available :: "UndoLogNumber list"
  pages :: "Buffer \<Rightarrow> Page"
  buffer_for :: "UndoLogNumber \<Rightarrow> nat \<Rightarrow> Buffer"
  tag_of :: "Buffer \<Rightarrow> UndoLogNumber \<times> nat"
  InRecovery :: bool
  calls :: "call list"
  heap :: "nat \<Rightarrow> UndoRecordSet option"
  UndoRecordSetList :: "nat list"
  UndoRecordSetContext :: bool
  next_addr :: nat

definition do_call :: "call \<Rightarrow> world \<Rightarrow> world" where
  "do_call c w = w\<lparr>calls := calls w @ [c]\<rparr>"

text \<open>
  Modelled from the spec: \<^verbatim>\<open>PageInit(page, BLCKSZ, 0)\<close> (storage/page/bufpage.c, not under
  src/) gives "a zero-initialized page".  Its header is then filled in: the cursor
  \<^verbatim>\<open>pd_lower\<close> stands just past the block header, \<^verbatim>\<open>pd_upper\<close> and \<^verbatim>\<open>pd_special\<close> (bytes
  14 to 17) are the page size, and \<^verbatim>\<open>pd_pagesize_version\<close> (bytes 18 and 19) is the page
  size or-ed with the layout version 4.
\<close>

definition PageInit :: "undo_config \<Rightarrow> Page" where
  "PageInit cfg =
     \<lparr>contents = take (BLCKSZ cfg)
        (replicate 12 0 @ le_bytes 2 (UndoLogBlockHeaderSize cfg) @ le_bytes 2 (BLCKSZ cfg)
           @ le_bytes 2 (BLCKSZ cfg) @ le_bytes 2 (BLCKSZ cfg OR 4)
           @ replicate (BLCKSZ cfg - 20) 0)\<rparr>"

text \<open>
  Modelled from the spec: the undo log allocator (access/undolog.c, not under src/).
  "acquire-a-log-for-persistence-class": the next available log, an error when there is
  none.  "extend-a-log's-physical-range": the end of the log is moved up to the new end
  (never down).
\<close>

definition UndoLogGetForPersistence :: "char \<Rightarrow> world \<Rightarrow> error + (UndoLogNumber \<times> world)" where
  "UndoLogGetForPersistence p w =
     (case available w of
        [] \<Rightarrow> Inl (ERROR ''no undo log available'')
      | l # ls \<Rightarrow> Inr (l, w\<lparr>available := ls\<rparr>))"

definition UndoLogAdjustPhysicalRange :: "UndoLogNumber \<Rightarrow> UndoLogOffset \<Rightarrow> world \<Rightarrow> world" where
  "UndoLogAdjustPhysicalRange l new_end w =
     w\<lparr>slots := (slots w)(l := (slots w l)\<lparr>log_end := max (log_end (slots w l)) new_end\<rparr>)\<rparr>"

subsection \<open>Creating a record set\<close>

fun urst_header_size :: "UndoRecordSetType \<Rightarrow> error + nat" where
  "urst_header_size URST_TRANSACTION = Inr 42"
| "urst_header_size URST_FOO = Inr 8"
| "urst_header_size URST_UNKNOWN = Inl (ERROR ''unknown UndoRecordSetType'')"

text \<open>
  \<^verbatim>\<open>UndoCreate\<close>.  The first call creates the memory context and registers the exit
  callback; this happens before the type is looked at, so it stays done when the lookup
  of the header size raises its error.  The record set that \<^verbatim>\<open>palloc0\<close> returns has every
  field zero, and is put on the list only after the lookup.  The world is returned in
  both cases: the process lives on after an \<^verbatim>\<open>ERROR\<close>.
\<close>

definition UndoCreate :: "UndoRecordSetType \<Rightarrow> char \<Rightarrow> world \<Rightarrow> (error + nat) \<times> world" where
  "UndoCreate t p w =
     (let w1 = w\<lparr>UndoRecordSetContext := True\<rparr>
      in case urst_header_size t of
           Inl e \<Rightarrow> (Inl e, w1)
         | Inr n \<Rightarrow>
             if n > 64 then (Inl (AssertFailed ''urs->type_header_size <= sizeof(urs->type_header)''), w1)
             else
               let a = next_addr w1;
                   urs = \<lparr>urs_type = t, persistence = p, chunks = [], max_chunks = 1,
                          first_block_id = 0, buffers = [], max_buffers = 1,
                          previous_chunk = 0, need_chunk_header = False,
                          need_type_header = True,
                          chunk_header = \<lparr>hdr_size = 0, hdr_previous_chunk = 0, hdr_type = URST_UNKNOWN\<rparr>,
                          type_header = replicate 64 0, type_header_size = n,
                          slot = None, closed = False, recent_end = 0\<rparr>
               in (Inr a, w1\<lparr>heap := (heap w1)(a := Some urs),
                               UndoRecordSetList := a # UndoRecordSetList w1,
                               next_addr := Suc a\<rparr>))"

subsection \<open>Releasing a record set, and process exit\<close>

text \<open>
  \<^verbatim>\<open>UndoRelease\<close>, on the record set at address \<open>a\<close>.  \<^verbatim>\<open>slist_delete\<close> (lib/ilist.c)
  takes the node of the record set out of the list.  A record set that is not allocated
  is a stale pointer.
\<close>

definition release_buffers :: "Buffer list \<Rightarrow> world \<Rightarrow> world" where
  "release_buffers bs w =
     fold (\<lambda>b w'. do_call (ReleaseBuffer b) (do_call (LockBuffer b BUFFER_LOCK_UNLOCK) w')) bs w"

definition put_logs :: "UndoRecordSetChunk list \<Rightarrow> world \<Rightarrow> world" where
  "put_logs cs w = fold (\<lambda>c w'. do_call (UndoLogPut (chunk_slot c)) w') cs w"

definition UndoRelease :: "nat \<Rightarrow> world \<Rightarrow> error + world" where
  "UndoRelease a w =
     (case heap w a of
        None \<Rightarrow> Inl (UNDEFINED ''urs is not an allocated record set'')
      | Some urs \<Rightarrow>
          let w1 = release_buffers (buffers urs) w;
              urs1 = urs\<lparr>buffers := []\<rparr>
          in if closed urs1
             then let w2 = put_logs (chunks urs1) w1
                  in Inr (w2\<lparr>UndoRecordSetList := remove1 a (UndoRecordSetList w2),
                             heap := (heap w2)(a := None)\<rparr>)
             else Inr (w1\<lparr>heap := (heap w1)(a := Some urs1)\<rparr>))"

definition AtProcExit_UndoRecordSet :: "world \<Rightarrow> error + unit" where
  "AtProcExit_UndoRecordSet w =
     (if UndoRecordSetList w \<noteq> []
      then Inl (PANIC ''undo record set not closed before backend exit'')
      else Inr ())"

text \<open>
  Process exit runs the callbacks registered with \<^verbatim>\<open>on_shmem_exit\<close> (storage/ipc.c);
  the callback of this file is registered when, and only when, \<^verbatim>\<open>UndoCreate\<close> created the
  memory context.
\<close>

definition proc_exit :: "world \<Rightarrow> error + unit" where
  "proc_exit w = (if UndoRecordSetContext w then AtProcExit_UndoRecordSet w else Inr ())"

subsection \<open>Reserving physical space\<close>

definition reserve_buffer_array :: "nat \<Rightarrow> UndoRecordSet \<Rightarrow> UndoRecordSet" where
  "reserve_buffer_array capacity urs =
     (if max_buffers urs < capacity then urs\<lparr>max_buffers := capacity\<rparr> else urs)"

text \<open>
  The sizes of the headers that the next insertion will write, as both
  \<^verbatim>\<open>reserve_physical_undo\<close> and \<^verbatim>\<open>UndoAllocate\<close> compute them.  Both functions add
  them to \<^verbatim>\<open>data_size\<close> in \<^verbatim>\<open>size_t\<close>, 64-bit unsigned arithmetic that wraps.
\<close>

definition pending_chunk_header_size :: "UndoRecordSet \<Rightarrow> nat" where
  "pending_chunk_header_size urs =
     (if need_chunk_header urs then UndoRecordSetChunkHeaderSize else 0)"

definition pending_type_header_size :: "UndoRecordSet \<Rightarrow> error + nat" where
  "pending_type_header_size urs =
     (if need_type_header urs then urst_header_size (urs_type urs) else Inr 0)"

text \<open>
  One round of the loop of \<^verbatim>\<open>reserve_physical_undo\<close>, first half: "Try to use the
  active undo log, if there is one."  The result is either the pointer that the function
  returns (\<open>Inl\<close>), or the state in which the loop goes on to its second half (\<open>Inr\<close>).
\<close>

definition use_active_log ::
  "undo_config \<Rightarrow> nat \<Rightarrow> UndoRecordSet \<times> world \<Rightarrow>
     error + ((UndoRecPtr \<times> UndoRecordSet \<times> world) + (UndoRecordSet \<times> world))" where
  "use_active_log cfg data_size uw =
     (case uw of (urs, w) \<Rightarrow>
      case slot urs of
        None \<Rightarrow> Inr (Inr (urs, w))
      | Some l \<Rightarrow>
          if nchunks urs < 1 then Inl (AssertFailed ''urs->nchunks >= 1'')
          else
            case pending_type_header_size urs of
              Inl e \<Rightarrow> Inl e
            | Inr ths \<Rightarrow>
                let total_size = (data_size + pending_chunk_header_size urs + ths) mod 2 ^ 64;
                    new_insert = UndoLogOffsetPlusUsableBytes cfg (meta_insert (slots w l)) total_size;
                    here = MakeUndoRecPtr l (meta_insert (slots w l))
                in if new_insert \<le> recent_end urs then Inr (Inl (here, urs, w))
                   else
                     let urs1 = urs\<lparr>recent_end := log_end (slots w l)\<rparr>
                     in if new_insert \<le> recent_end urs1 then Inr (Inl (here, urs1, w))
                        else if new_insert \<le> UndoLogMaxSize cfg
                        then Inr (Inl (here, urs1, UndoLogAdjustPhysicalRange l new_insert w))
                        else Inr (Inr (urs1\<lparr>slot := None\<rparr>, do_call (UndoLogMarkFull l) w)))"

text \<open>
  Second half: "Make sure there is book-keeping space for one more chunk" and "Get our
  hands on a new undo log".  A chunk array without room for the new element after the
  doubling is written out of range.
\<close>

definition start_new_chunk :: "UndoRecordSet \<times> world \<Rightarrow> error + (UndoRecordSet \<times> world)" where
  "start_new_chunk uw =
     (case uw of (urs, w) \<Rightarrow>
      let urs1 = (if nchunks urs = max_chunks urs
                  then urs\<lparr>max_chunks := max_chunks urs * 2\<rparr> else urs);
          urs2 = urs1\<lparr>need_chunk_header := True, recent_end := 0\<rparr>
      in case UndoLogGetForPersistence (persistence urs2) w of
           Inl e \<Rightarrow> Inl e
         | Inr (l, w') \<Rightarrow>
             if nchunks urs2 \<ge> max_chunks urs2
             then Inl (UNDEFINED ''urs->chunks[urs->nchunks] out of range'')
             else Inr (urs2\<lparr>slot := Some l,
                             chunks := chunks urs2 @
                               [\<lparr>chunk_slot = l,
                                 chunk_header_offset = meta_insert (slots w' l),
                                 chunk_header_buffer_index0 = -1,
                                 chunk_header_buffer_index1 = -1,
                                 chunk_header_ops0 = replicate 4 0,
                                 chunk_header_ops1 = replicate 4 0\<rparr>]\<rparr>, w'))"

lemma use_active_log_available:
  "use_active_log cfg n (urs, w) = Inr (Inr (urs', w')) \<Longrightarrow> available w' = available w"
  by (auto simp: use_active_log_def do_call_def Let_def split: option.splits sum.splits if_splits)

lemma start_new_chunk_available:
  "start_new_chunk (urs, w) = Inr (urs', w') \<Longrightarrow> length (available w') < length (available w)"
  by (auto simp: start_new_chunk_def UndoLogGetForPersistence_def Let_def
           split: list.splits sum.splits if_splits)

function reserve_physical_undo ::
  "undo_config \<Rightarrow> nat \<Rightarrow> UndoRecordSet \<times> world \<Rightarrow> error + (UndoRecPtr \<times> UndoRecordSet \<times> world)" where
  "reserve_physical_undo cfg data_size uw =
     (case use_active_log cfg data_size uw of
        Inl e \<Rightarrow> Inl e
      | Inr (Inl r) \<Rightarrow> Inr r
      | Inr (Inr uw1) \<Rightarrow>
          (case start_new_chunk uw1 of
             Inl e \<Rightarrow> Inl e
           | Inr uw2 \<Rightarrow> reserve_physical_undo cfg data_size uw2))"
  by pat_completeness auto
termination
proof (relation "measure (\<lambda>(cfg, n, uw). length (available (snd uw)))")
  show "wf (measure (\<lambda>(cfg, n, uw). length (available (snd uw))))"
    by simp
next
  fix cfg :: undo_config and data_size :: nat
    and uw :: "UndoRecordSet \<times> world" and x y and uw1 uw2 :: "UndoRecordSet \<times> world"
  assume a: "use_active_log cfg data_size uw = Inr x" "x = Inr uw1"
    and b: "start_new_chunk uw1 = Inr uw2"
  have "available (snd uw1) = available (snd uw)"
    using a use_active_log_available [of cfg data_size "fst uw" "snd uw" "fst uw1" "snd uw1"]
    by simp
  moreover have "length (available (snd uw2)) < length (available (snd uw1))"
    using b start_new_chunk_available [of "fst uw1" "snd uw1" "fst uw2" "snd uw2"]
    by simp
  ultimately show "((cfg, data_size, uw2), (cfg, data_size, uw)) \<in>
      measure (\<lambda>(cfg, n, uw). length (available (snd uw)))"
    by simp
qed

subsection \<open>Appending bytes to pages\<close>

record UndoInsertState =
  buffers_st :: "Buffer list"
  first_block_id_st :: byte
  last_buffer_index :: int
  buffer_index :: nat
  insert_st :: UndoRecPtr

definition begin_append :: "Buffer list \<Rightarrow> byte \<Rightarrow> UndoRecPtr \<Rightarrow> UndoInsertState" where
  "begin_append bufs fbi urp =
     \<lparr>buffers_st = bufs, first_block_id_st = fbi, last_buffer_index = -1,
      buffer_index = 0, insert_st = urp\<rparr>"

text \<open>
  The first-touch block of \<^verbatim>\<open>append_bytes\<close>: "if (state->last_buffer_index !=
  state->buffer_index)".
\<close>

definition touch_buffer :: "undo_config \<Rightarrow> nat \<Rightarrow> UndoInsertState \<times> world \<Rightarrow> UndoInsertState \<times> world" where
  "touch_buffer cfg offset sw =
     (case sw of (st, w) \<Rightarrow>
      if last_buffer_index st \<noteq> int (buffer_index st)
      then
        let buf = buffers_st st ! buffer_index st;
            flags = (if offset = UndoLogBlockHeaderSize cfg then REGBUF_WILL_INIT else REGBUF_NONE);
            w1 = do_call (MarkBufferDirty buf) w;
            w2 = (if InRecovery w1 then w1
                  else do_call (XLogRegisterBuffer
                                  (first_block_id_st st + of_nat (buffer_index st)) buf flags) w1)
        in (st\<lparr>last_buffer_index := int (buffer_index st)\<rparr>, w2)
      else (st, w))"

text \<open>
  \<^verbatim>\<open>append_bytes(state, data, size)\<close>.  \<open>sz\<close> is what is left of \<^verbatim>\<open>size\<close>; the pointer
  \<^verbatim>\<open>data\<close> is the same in every round of the loop, as in the source.  The buffer array is
  read within the list of buffers only.  The assignment \<^verbatim>\<open>header->pd_lower = offset\<close>
  comes first and the \<^verbatim>\<open>memcpy\<close> after it, into the same page bytes.  With \<^verbatim>\<open>BLCKSZ\<close> zero
  the page offset is a division by zero.
\<close>

function append_bytes ::
  "undo_config \<Rightarrow> byte list \<Rightarrow> nat \<Rightarrow> UndoInsertState \<times> world \<Rightarrow> error + (UndoInsertState \<times> world)" where
  "append_bytes cfg data sz sw =
     (if sz = 0 then Inr sw
      else if BLCKSZ cfg = 0 then Inl (UNDEFINED ''% BLCKSZ'')
      else if buffer_index (fst sw) \<ge> length (buffers_st (fst sw))
      then Inl (UNDEFINED ''state->buffers[state->buffer_index] out of range'')
      else
        let buf = buffers_st (fst sw) ! buffer_index (fst sw);
            offset = UndoRecPtrGetPageOffset cfg (insert_st (fst sw));
            bytes_on_this_page = min (BLCKSZ cfg - offset) sz;
            sw1 = touch_buffer cfg offset sw
        in case set_pd_lower offset (pages (snd sw1) buf) of
             None \<Rightarrow> Inl (UNDEFINED ''header->pd_lower past the end of the page'')
           | Some pg1 \<Rightarrow>
        case memcpy_page (contents pg1) offset (take bytes_on_this_page data) of
             None \<Rightarrow> Inl (UNDEFINED ''memcpy past the end of the page'')
           | Some bs \<Rightarrow>
               let w2 = (snd sw1)\<lparr>pages := (pages (snd sw1))(buf := pg1\<lparr>contents := bs\<rparr>)\<rparr>;
                   ins = insert_st (fst sw1);
                   st2 = (fst sw1)\<lparr>insert_st := ins\<lparr>urp_offset := urp_offset ins + bytes_on_this_page\<rparr>\<rparr>;
                   st3 = (if offset + bytes_on_this_page = BLCKSZ cfg
                          then st2\<lparr>buffer_index := buffer_index st2 + 1,
                                   insert_st := (insert_st st2)
                                     \<lparr>urp_offset := urp_offset (insert_st st2) + UndoLogBlockHeaderSize cfg\<rparr>\<rparr>
                          else st2)
               in append_bytes cfg data (sz - bytes_on_this_page) (st3, w2))"
  by pat_completeness auto
termination
proof (relation "measure (\<lambda>(cfg, data, sz, sw). sz)")
  show "wf (measure (\<lambda>(cfg, data, sz, sw). sz))"
    by simp
next
  fix cfg :: undo_config and data :: "byte list" and sz :: nat
    and sw :: "UndoInsertState \<times> world"
    and buf offset bytes_on_this_page sw1 pg1 bs w2 ins st2 st3
  assume "sz \<noteq> 0" "BLCKSZ cfg \<noteq> 0"
    and off: "offset = UndoRecPtrGetPageOffset cfg (insert_st (fst sw))"
    and n: "bytes_on_this_page = min (BLCKSZ cfg - offset) sz"
  then have "offset < BLCKSZ cfg"
    by (simp add: UndoRecPtrGetPageOffset_def)
  with \<open>sz \<noteq> 0\<close> n have "0 < bytes_on_this_page"
    by simp
  with \<open>sz \<noteq> 0\<close> show "((cfg, data, sz - bytes_on_this_page, st3, w2), (cfg, data, sz, sw))
      \<in> measure (\<lambda>(cfg, data, sz, sw). sz)"
    by simp
qed

subsection \<open>Allocating and inserting\<close>

text \<open>
  The loop "Loop, pinning buffers" of \<^verbatim>\<open>UndoAllocate\<close>.  The pointer \<^verbatim>\<open>urp\<close> is the same
  in every round, as in the source.  \<^verbatim>\<open>ReadBufferWithoutRelcache\<close> returns the buffer of
  the block; in mode \<^verbatim>\<open>RBM_ZERO\<close> the page is initialised.  \<^verbatim>\<open>block\<close> is a
  \<^verbatim>\<open>BlockNumber\<close>, which keeps the low 32 bits of the block number.  A write to
  \<^verbatim>\<open>urs->buffers[urs->nbuffers]\<close> at or past the capacity of the array is out of range.
\<close>

function pin_buffers ::
  "undo_config \<Rightarrow> UndoRecPtr \<Rightarrow> nat \<Rightarrow> UndoRecordSet \<times> world \<Rightarrow> error + (UndoRecordSet \<times> world)" where
  "pin_buffers cfg urp total_size uw =
     (if total_size = 0 then Inr uw
      else if nbuffers (fst uw) \<ge> max_buffers (fst uw)
      then Inl (UNDEFINED ''urs->buffers[urs->nbuffers] out of range'')
      else
        let block = UndoRecPtrGetBlockNum cfg urp mod 2 ^ 32;
            offset = UndoRecPtrGetPageOffset cfg urp;
            rbm_zero = (offset = UndoLogBlockHeaderSize cfg);
            buffer = buffer_for (snd uw) (urp_logno urp) block;
            urs1 = (fst uw)\<lparr>buffers := buffers (fst uw) @ [buffer]\<rparr>;
            w1 = (if rbm_zero
                  then (snd uw)\<lparr>pages := (pages (snd uw))(buffer := PageInit cfg)\<rparr>
                  else snd uw);
            bytes_on_this_page = min (BLCKSZ cfg - offset) total_size
        in pin_buffers cfg urp (total_size - bytes_on_this_page) (urs1, w1))"
  by pat_completeness auto
termination
  by (relation "measure (\<lambda>(cfg, urp, total_size, uw). max_buffers (fst uw) - nbuffers (fst uw))")
     auto

definition lock_buffers :: "Buffer list \<Rightarrow> world \<Rightarrow> world" where
  "lock_buffers bs w = fold (\<lambda>b w'. do_call (LockBuffer b BUFFER_LOCK_EXCLUSIVE) w') bs w"

text \<open>\<^verbatim>\<open>UndoAllocate\<close>.\<close>

definition UndoAllocate ::
  "undo_config \<Rightarrow> nat \<Rightarrow> UndoRecordSet \<times> world \<Rightarrow> error + (UndoRecPtr \<times> UndoRecordSet \<times> world)" where
  "UndoAllocate cfg data_size uw =
     (case reserve_physical_undo cfg data_size uw of
        Inl e \<Rightarrow> Inl e
      | Inr (begin_ptr, urs, w) \<Rightarrow>
          case pending_type_header_size urs of
            Inl e \<Rightarrow> Inl e
          | Inr ths \<Rightarrow>
              let chs = pending_chunk_header_size urs;
                  total_size = (data_size + chs + ths) mod 2 ^ 64;
                  urs1 = reserve_buffer_array (total_size div BLCKSZ cfg + 2) urs
              in if nbuffers urs1 \<noteq> 0 then Inl (AssertFailed ''urs->nbuffers == 0'')
                 else
                   case pin_buffers cfg begin_ptr total_size (urs1, w) of
                     Inl e \<Rightarrow> Inl e
                   | Inr (urs2, w2) \<Rightarrow>
                       Inr (UndoRecPtrPlusUsableBytes cfg begin_ptr (chs + ths),
                            urs2, lock_buffers (buffers urs2) w2))"

text \<open>
  The object representation of the pending chunk header (\<^verbatim>\<open>&urs->chunk_header\<close>): the
  8-byte size, the 8-byte pointer to the previous chunk, the 4-byte enum, and 4 bytes of
  padding, which \<^verbatim>\<open>palloc0\<close> left zero.
\<close>

definition chunk_header_image :: "undo_config \<Rightarrow> UndoRecordSetChunkHeader \<Rightarrow> byte list" where
  "chunk_header_image cfg h =
     le_bytes 8 (hdr_size h) @ le_bytes 8 (hdr_previous_chunk h)
       @ le_bytes 4 (urst_value cfg (hdr_type h)) @ replicate 4 0"

text \<open>
  \<^verbatim>\<open>UndoInsert\<close>.  \<^verbatim>\<open>begin_append\<close> is given \<^verbatim>\<open>urs->slot->meta.insert\<close>, an offset, where
  it expects an undo pointer: the log number of that pointer is zero.  \<^verbatim>\<open>urst_header\<close>
  writes nothing, so the type header is the zeroes of the \<^verbatim>\<open>memset\<close>.
\<close>

definition UndoInsert ::
  "undo_config \<Rightarrow> byte \<Rightarrow> byte list \<Rightarrow> UndoRecordSet \<times> world \<Rightarrow> error + (UndoRecordSet \<times> world)" where
  "UndoInsert cfg fbi data uw =
     (case uw of (urs, w) \<Rightarrow>
      if InRecovery w then Inl (AssertFailed ''!InRecovery'')
      else
        case slot urs of
          None \<Rightarrow> Inl (UNDEFINED ''urs->slot is null'')
        | Some l \<Rightarrow>
            let st0 = begin_append (buffers urs) fbi (MakeUndoRecPtr 0 (meta_insert (slots w l)));
                hdr = \<lparr>hdr_size = 0, hdr_previous_chunk = previous_chunk urs, hdr_type = urs_type urs\<rparr>;
                urs1 = (if need_chunk_header urs then urs\<lparr>chunk_header := hdr\<rparr> else urs);
                r1 = (if need_chunk_header urs
                      then (case append_bytes cfg (chunk_header_image cfg hdr)
                                   UndoRecordSetChunkHeaderSize (st0, w) of
                              Inl e \<Rightarrow> Inl e
                            | Inr (st, w') \<Rightarrow>
                                Inr (st, do_call (XLogRegisterBufData fbi (chunk_header_image cfg hdr))
                                       (do_call (XLogRegisterBufData fbi
                                          [of_nat UndoRecordSetChunkHeaderSize]) w')))
                      else Inr (st0, w))
            in case r1 of
                 Inl e \<Rightarrow> Inl e
               | Inr (st1, w1) \<Rightarrow>
                   let zeroes = replicate (type_header_size urs1) 0;
                       urs2 = (if need_type_header urs1
                               then urs1\<lparr>type_header := zeroes @ drop (type_header_size urs1) (type_header urs1)\<rparr>
                               else urs1);
                       r2 = (if need_type_header urs1
                             then (case append_bytes cfg zeroes (type_header_size urs1) (st1, w1) of
                                     Inl e \<Rightarrow> Inl e
                                   | Inr (st, w') \<Rightarrow>
                                       Inr (st, do_call (XLogRegisterBufData fbi zeroes)
                                              (do_call (XLogRegisterBufData fbi
                                                 [of_nat (type_header_size urs1)]) w')))
                             else Inr (st1, w1))
                   in case r2 of
                        Inl e \<Rightarrow> Inl e
                      | Inr (st2, w2) \<Rightarrow>
                          case append_bytes cfg data (length data) (st2, w2) of
                            Inl e \<Rightarrow> Inl e
                          | Inr (st3, w3) \<Rightarrow>
                              Inr (urs2\<lparr>need_chunk_header := False, need_type_header := False\<rparr>,
                                   w3\<lparr>slots := (slots w3)
                                        (l := (slots w3 l)\<lparr>meta_insert := urp_offset (insert_st st3)\<rparr>)\<rparr>))"

subsection \<open>Closing a record set\<close>

text \<open>
  The loop "Do we have it pinned and locked already?" of \<^verbatim>\<open>find_or_read_buffer\<close>, from
  index \<open>i\<close> on.
\<close>

primrec find_buffer :: "world \<Rightarrow> UndoLogNumber \<Rightarrow> nat \<Rightarrow> nat \<Rightarrow> Buffer list \<Rightarrow> nat option" where
  "find_buffer w l block i [] = None"
| "find_buffer w l block i (b # bs) =
     (if fst (tag_of w b) = l \<and> snd (tag_of w b) = block then Some i
      else find_buffer w l block (Suc i) bs)"

definition find_or_read_buffer ::
  "UndoLogNumber \<Rightarrow> nat \<Rightarrow> UndoRecordSet \<times> world \<Rightarrow> nat \<times> UndoRecordSet \<times> world" where
  "find_or_read_buffer l block uw =
     (case uw of (urs, w) \<Rightarrow>
      case find_buffer w l block 0 (buffers urs) of
        Some i \<Rightarrow> (i, urs, w)
      | None \<Rightarrow>
          let urs1 = reserve_buffer_array (nbuffers urs + 1) urs;
              b = buffer_for w l block
          in (nbuffers urs, urs1\<lparr>buffers := buffers urs1 @ [b]\<rparr>,
              do_call (LockBuffer b BUFFER_LOCK_EXCLUSIVE) w))"

text \<open>
  The body of the loop of \<^verbatim>\<open>UndoPrepareToMarkClosed\<close> for one chunk, and the loop over
  the chunks.  \<^verbatim>\<open>BLCKSZ - sizeof(UndoLogOffset)\<close> is unsigned 64-bit arithmetic, and
  \<^verbatim>\<open>header_block\<close> is a \<^verbatim>\<open>BlockNumber\<close>, 32 bits wide.
\<close>

definition prepare_chunk ::
  "undo_config \<Rightarrow> UndoRecordSetChunk \<Rightarrow> UndoRecordSet \<times> world \<Rightarrow>
     UndoRecordSetChunk \<times> UndoRecordSet \<times> world" where
  "prepare_chunk cfg chunk uw =
     (let header = chunk_header_offset chunk;
          header_block = (header div BLCKSZ cfg) mod 2 ^ 32;
          header_offset = header mod BLCKSZ cfg
      in case find_or_read_buffer (chunk_slot chunk) header_block uw of
           (i0, urs1, w1) \<Rightarrow>
             if header_offset \<le> (BLCKSZ cfg + 2 ^ 64 - sizeof_UndoLogOffset) mod 2 ^ 64
             then (chunk\<lparr>chunk_header_buffer_index0 := int i0,
                         chunk_header_buffer_index1 := -1\<rparr>, urs1, w1)
             else
               case find_or_read_buffer (chunk_slot chunk) ((header_block + 1) mod 2 ^ 32) (urs1, w1) of
                 (i1, urs2, w2) \<Rightarrow>
                   (chunk\<lparr>chunk_header_buffer_index0 := int i0,
                          chunk_header_buffer_index1 := int i1\<rparr>, urs2, w2))"

fun prepare_chunks ::
  "undo_config \<Rightarrow> UndoRecordSetChunk list \<Rightarrow> UndoRecordSet \<times> world \<Rightarrow>
     UndoRecordSetChunk list \<times> UndoRecordSet \<times> world" where
  "prepare_chunks cfg [] uw = ([], uw)"
| "prepare_chunks cfg (c # cs) uw =
     (case prepare_chunk cfg c uw of
        (c', uw1) \<Rightarrow>
          (case prepare_chunks cfg cs uw1 of
             (cs', uw2) \<Rightarrow> (c' # cs', uw2)))"

definition UndoPrepareToMarkClosed :: "undo_config \<Rightarrow> UndoRecordSet \<times> world \<Rightarrow> UndoRecordSet \<times> world" where
  "UndoPrepareToMarkClosed cfg uw =
     (case prepare_chunks cfg (chunks (fst uw)) uw of
        (cs, urs', w') \<Rightarrow> (urs'\<lparr>chunks := cs\<rparr>, w'))"

text \<open>\<^verbatim>\<open>urs->buffers[i]\<close> for a signed index \<open>i\<close>.\<close>

definition buffer_at :: "UndoRecordSet \<Rightarrow> int \<Rightarrow> Buffer option" where
  "buffer_at urs i =
     (if 0 \<le> i \<and> nat i < nbuffers urs then Some (buffers urs ! nat i) else None)"

text \<open>The bytes \<^verbatim>\<open>page + off\<close> up to \<^verbatim>\<open>page + off + n\<close>, as \<^verbatim>\<open>XLogRegisterBufData\<close> reads them.\<close>

definition page_bytes :: "Page \<Rightarrow> nat \<Rightarrow> nat \<Rightarrow> byte list" where
  "page_bytes pg off n = take n (drop off (contents pg))"

text \<open>
  The body of the loop of \<^verbatim>\<open>UndoMarkClosed\<close> for one chunk.  \<^verbatim>\<open>insert - header\<close> is
  unsigned 64-bit arithmetic.  Each call of \<^verbatim>\<open>write_update_ops_header\<close> makes its
  assertions first; the second call has the arguments of the first, so its assertions
  hold when those of the first did.  The second half is the block "We might need to
  spill onto the next page".
\<close>

definition close_chunk ::
  "undo_config \<Rightarrow> UndoRecordSet \<Rightarrow> UndoRecordSetChunk \<Rightarrow> world \<Rightarrow> error + (UndoRecordSetChunk \<times> world)" where
  "close_chunk cfg urs chunk w =
     (let header = chunk_header_offset chunk;
          ins = meta_insert (slots w (chunk_slot chunk));
          sz = (ins + 2 ^ 64 - header mod 2 ^ 64) mod 2 ^ 64;
          header_offset = header mod BLCKSZ cfg;
          bytes_on_first_page = min (BLCKSZ cfg - header_offset) sizeof_UndoLogOffset;
          size_bytes = le_bytes sizeof_UndoLogOffset sz;
          buffer_index = chunk_header_buffer_index0 chunk
      in case buffer_at urs buffer_index of
           None \<Rightarrow> Inl (UNDEFINED ''urs->buffers[buffer_index] out of range'')
         | Some buffer \<Rightarrow>
             let w1 = do_call (MarkBufferDirty buffer) w
             in case memcpy_page (contents (pages w1 buffer)) header_offset
                       (take bytes_on_first_page size_bytes) of
                  None \<Rightarrow> Inl (UNDEFINED ''memcpy past the end of the page'')
                | Some bs \<Rightarrow>
                    let w2 = w1\<lparr>pages := (pages w1)(buffer := (pages w1 buffer)\<lparr>contents := bs\<rparr>)\<rparr>;
                        w3 = do_call (XLogRegisterBuffer (first_block_id urs + of_int buffer_index)
                                        buffer REGBUF_NONE) w2;
                        ops0 = write_update_ops_header (of_nat header_offset) (of_nat bytes_on_first_page);
                        chunk1 = chunk\<lparr>chunk_header_ops0 := ops0\<rparr>;
                        w4 = do_call (XLogRegisterBufData (first_block_id urs + of_int buffer_index) ops0) w3;
                        w5 = do_call (XLogRegisterBufData (first_block_id urs + of_int buffer_index)
                                        (page_bytes (pages w4 buffer) header_offset bytes_on_first_page)) w4
                    in case write_update_ops_header_failure cfg
                              (of_nat header_offset) (of_nat bytes_on_first_page) of
                         Some e \<Rightarrow> Inl e
                       | None \<Rightarrow>
                       if bytes_on_first_page < sizeof_UndoLogOffset
                       then
                         let buffer_index' = chunk_header_buffer_index1 chunk1
                         in case buffer_at urs buffer_index' of
                              None \<Rightarrow> Inl (UNDEFINED ''urs->buffers[buffer_index] out of range'')
                            | Some buffer' \<Rightarrow>
                                let w6 = do_call (MarkBufferDirty buffer') w5
                                in case memcpy_page (contents (pages w6 buffer')) 0
                                          (drop bytes_on_first_page size_bytes) of
                                     None \<Rightarrow> Inl (UNDEFINED ''memcpy past the end of the page'')
                                   | Some bs' \<Rightarrow>
                                       let w7 = w6\<lparr>pages := (pages w6)
                                                  (buffer' := (pages w6 buffer')\<lparr>contents := bs'\<rparr>)\<rparr>;
                                           w8 = do_call (XLogRegisterBuffer
                                                           (first_block_id urs + of_int buffer')
                                                           buffer' REGBUF_NONE) w7;
                                           ops1 = write_update_ops_header (of_nat header_offset)
                                                    (of_nat bytes_on_first_page);
                                           chunk2 = chunk1\<lparr>chunk_header_ops1 := ops1\<rparr>;
                                           w9 = do_call (XLogRegisterBufData
                                                           (first_block_id urs + of_int buffer_index') ops1) w8;
                                           w10 = do_call (XLogRegisterBufData
                                                           (first_block_id urs + of_int buffer_index')
                                                           (page_bytes (pages w9 buffer') header_offset
                                                              bytes_on_first_page)) w9
                                       in Inr (chunk2, w10)
                       else Inr (chunk1, w5))"

fun close_chunks ::
  "undo_config \<Rightarrow> UndoRecordSet \<Rightarrow> UndoRecordSetChunk list \<Rightarrow> world \<Rightarrow>
     error + (UndoRecordSetChunk list \<times> world)" where
  "close_chunks cfg urs [] w = Inr ([], w)"
| "close_chunks cfg urs (c # cs) w =
     (case close_chunk cfg urs c w of
        Inl e \<Rightarrow> Inl e
      | Inr (c', w1) \<Rightarrow>
          (case close_chunks cfg urs cs w1 of
             Inl e \<Rightarrow> Inl e
           | Inr (cs', w2) \<Rightarrow> Inr (c' # cs', w2)))"

definition UndoMarkClosed :: "undo_config \<Rightarrow> UndoRecordSet \<times> world \<Rightarrow> error + (UndoRecordSet \<times> world)" where
  "UndoMarkClosed cfg uw =
     (case close_chunks cfg (fst uw) (chunks (fst uw)) (snd uw) of
        Inl e \<Rightarrow> Inl e
      | Inr (cs, w') \<Rightarrow> Inr ((fst uw)\<lparr>chunks := cs, closed := True\<rparr>, w'))"

subsection \<open>Replay\<close>

text \<open>
  A decoded WAL record (access/xlogreader.h), as far as the file reads it: for each block
  id, whether the block is in use and belongs to the undo area
  (\<^verbatim>\<open>rnode.dbNode == UndoDbOid\<close>), the log (\<^verbatim>\<open>rnode.relNode\<close>) and block number, the flag
  \<^verbatim>\<open>BKPBLOCK_WILL_INIT\<close>, and the data attached to the block (\<^verbatim>\<open>XLogRecGetBlockData\<close>, null
  when there is none).  What \<^verbatim>\<open>XLogReadBufferForRedoExtended\<close> answers for the block, the
  action and the buffer, is part of the input.
\<close>

datatype XLogRedoAction = BLK_NEEDS_REDO | BLK_DONE | BLK_RESTORED | BLK_NOTFOUND

record DecodedBkpBlock =
  in_use :: bool
  is_undo :: bool
  relNode :: UndoLogNumber
  blkno :: nat
  will_init :: bool
  block_data :: "byte list option"
  redo_action :: XLogRedoAction
  redo_buffer :: Buffer

record XLogReaderState =
  blocks :: "DecodedBkpBlock list"
  ReadRecPtr :: nat

text \<open>\<^verbatim>\<open>UndoUpdateInRecovery\<close>: the body of the loop over the blocks, and the loop.\<close>

definition update_block :: "nat \<Rightarrow> DecodedBkpBlock \<Rightarrow> world \<Rightarrow> error + world" where
  "update_block lsn block w =
     (if in_use block \<and> is_undo block
      then
        let buffer = redo_buffer block;
            r = (if redo_action block = BLK_NEEDS_REDO
                 then (case apply_update_ops (case block_data block of None \<Rightarrow> [] | Some d \<Rightarrow> d)
                              (contents (pages w buffer)) of
                         Inl e \<Rightarrow> Inl e
                       | Inr bs \<Rightarrow>
                           Inr (do_call (PageSetLSN buffer lsn)
                                  (w\<lparr>pages := (pages w)(buffer := (pages w buffer)\<lparr>contents := bs\<rparr>)\<rparr>)))
                 else Inr w)
        in case r of
             Inl e \<Rightarrow> Inl e
           | Inr w1 \<Rightarrow> Inr (do_call (ReleaseBuffer buffer)
                              (do_call (LockBuffer buffer BUFFER_LOCK_UNLOCK) w1))
      else Inr w)"

fun update_blocks :: "nat \<Rightarrow> DecodedBkpBlock list \<Rightarrow> world \<Rightarrow> error + world" where
  "update_blocks lsn [] w = Inr w"
| "update_blocks lsn (b # bs) w =
     (case update_block lsn b w of Inl e \<Rightarrow> Inl e | Inr w1 \<Rightarrow> update_blocks lsn bs w1)"

definition UndoUpdateInRecovery :: "XLogReaderState \<Rightarrow> world \<Rightarrow> error + world" where
  "UndoUpdateInRecovery xlog_record w = update_blocks (ReadRecPtr xlog_record) (blocks xlog_record) w"

text \<open>
  The local variables of \<^verbatim>\<open>UndoInsertInRecovery\<close> that its first loop sets: the buffers
  read so far, \<^verbatim>\<open>slot\<close> (not initialised before the first undo block), \<^verbatim>\<open>skip\<close> and
  \<^verbatim>\<open>ops\<close> (null when the first block has no data).
\<close>

record redo_locals =
  rl_buffers :: "Buffer list"
  rl_slot :: "UndoLogNumber option"
  rl_skip :: bool
  rl_ops :: "byte list option"

text \<open>
  The body of the loop "Read and lock all referenced undo log buffers".  The products
  \<^verbatim>\<open>(block->blkno + 1) * BLCKSZ\<close> and \<^verbatim>\<open>BLCKSZ * block->blkno + header->pd_lower\<close> are
  computed in 32-bit unsigned arithmetic (\<^verbatim>\<open>BlockNumber\<close> is \<^verbatim>\<open>uint32\<close>, \<^verbatim>\<open>BLCKSZ\<close> an
  \<^verbatim>\<open>int\<close> constant) before they are stored into 64-bit offsets.
\<close>

definition insert_block ::
  "undo_config \<Rightarrow> DecodedBkpBlock \<Rightarrow> redo_locals \<times> world \<Rightarrow> error + (redo_locals \<times> world)" where
  "insert_block cfg block lw =
     (case lw of (loc, w) \<Rightarrow>
      if \<not> (in_use block \<and> is_undo block) then Inr (loc, w)
      else
        let first = (rl_buffers loc = []);
            l = (if first then relNode block else (case rl_slot loc of None \<Rightarrow> 0 | Some l' \<Rightarrow> l'))
        in if \<not> first \<and> l \<noteq> relNode block
           then Inl (AssertFailed ''slot->logno == block->rnode.relNode'')
           else
             let past_this_block = ((blkno block + 1) * BLCKSZ cfg) mod 2 ^ 32;
                 w1 = (if log_end (slots w l) < past_this_block
                       then UndoLogAdjustPhysicalRange l past_this_block w else w);
                 buffer = redo_buffer block;
                 action = redo_action block;
                 pg = pages w1 buffer
             in case (if action = BLK_RESTORED \<and> first \<and> pd_lower pg = 0
                      then set_pd_lower (UndoLogBlockHeaderSize cfg) pg else Some pg) of
                  None \<Rightarrow> Inl (UNDEFINED ''header->pd_lower past the end of the page'')
                | Some pg1 \<Rightarrow>
             let w2 = (if action = BLK_RESTORED \<and> first
                       then w1\<lparr>pages := (pages w1)(buffer := pg1),
                               slots := (slots w1)
                                 (l := (slots w1 l)\<lparr>meta_insert :=
                                    (BLCKSZ cfg * blkno block + pd_lower pg1) mod 2 ^ 32\<rparr>)\<rparr>
                       else w1)
             in if \<not> (action = BLK_RESTORED \<and> first) \<and> first \<and>
                   UndoRecPtrGetBlockNum cfg (MakeUndoRecPtr 0 (meta_insert (slots w1 l))) \<noteq> blkno block
                then Inl (AssertFailed ''UndoRecPtrGetBlockNum(slot->meta.insert) == block->blkno'')
                else
                  let w3 = (if will_init block
                            then w2\<lparr>pages := (pages w2)(buffer := PageInit cfg)\<rparr> else w2)
                  in Inr (\<lparr>rl_buffers = rl_buffers loc @ [buffer],
                           rl_slot = Some l,
                           rl_skip = (rl_skip loc \<or> action = BLK_NOTFOUND),
                           rl_ops = (if first then block_data block else rl_ops loc)\<rparr>, w3))"

fun insert_blocks ::
  "undo_config \<Rightarrow> DecodedBkpBlock list \<Rightarrow> redo_locals \<times> world \<Rightarrow> error + (redo_locals \<times> world)" where
  "insert_blocks cfg [] lw = Inr lw"
| "insert_blocks cfg (b # bs) lw =
     (case insert_block cfg b lw of Inl e \<Rightarrow> Inl e | Inr lw1 \<Rightarrow> insert_blocks cfg bs lw1)"

text \<open>
  \<^verbatim>\<open>append_bytes(&state, ...)\<close> as \<^verbatim>\<open>UndoInsertInRecovery\<close> calls it: the local variable
  \<^verbatim>\<open>state\<close> is initialised by \<^verbatim>\<open>begin_append\<close> under \<^verbatim>\<open>if (!skip)\<close> only, so it may be
  uninitialised (\<open>None\<close>).  \<^verbatim>\<open>append_bytes\<close> reads the state as soon as there is a byte to
  append.
\<close>

definition append_bytes_local ::
  "undo_config \<Rightarrow> byte list \<Rightarrow> nat \<Rightarrow> UndoInsertState option \<times> world \<Rightarrow>
     error + (UndoInsertState option \<times> world)" where
  "append_bytes_local cfg data sz sw =
     (case fst sw of
        None \<Rightarrow> if sz = 0 then Inr sw
                else Inl (UNDEFINED ''state is read uninitialised'')
      | Some st \<Rightarrow>
          (case append_bytes cfg data sz (st, snd sw) of
             Inl e \<Rightarrow> Inl e
           | Inr (st', w') \<Rightarrow> Inr (Some st', w')))"

text \<open>
  The loop over the insert entries at the head of the stream ("Were any insertions
  recorded for this buffer?").  \<open>ops\<close> is the stream from \<^verbatim>\<open>ops\<close> to \<^verbatim>\<open>ops_end\<close>; the third
  component of the state is \<^verbatim>\<open>header_size\<close>.
\<close>

function replay_insert_ops ::
  "undo_config \<Rightarrow> byte list \<Rightarrow> UndoInsertState option \<times> world \<times> nat \<Rightarrow>
     error + (UndoInsertState option \<times> world \<times> nat)" where
  "replay_insert_ops cfg ops swh =
     (case ops of
        [] \<Rightarrow> Inr swh
      | b # rest \<Rightarrow>
          if \<not> b < 0x80 then Inr swh
          else if unat b > length rest then Inl (ERROR ''undo insert data corrupted'')
          else
            (case append_bytes_local cfg (take (unat b) rest) (unat b) (fst swh, fst (snd swh)) of
               Inl e \<Rightarrow> Inl e
             | Inr (st', w') \<Rightarrow>
                 replay_insert_ops cfg (drop (unat b) rest) (st', w', snd (snd swh) + unat b)))"
  by pat_completeness auto
termination
  by (relation "measure (\<lambda>(cfg, ops, swh). length ops)") auto

text \<open>The loop "Update the page LSNs and release"; \<^verbatim>\<open>BufferIsValid\<close> is \<open>b \<noteq> 0\<close>.\<close>

definition set_lsn_and_release :: "nat \<Rightarrow> Buffer list \<Rightarrow> world \<Rightarrow> world" where
  "set_lsn_and_release lsn bs w =
     fold (\<lambda>b w'. if b \<noteq> 0
                   then do_call (ReleaseBuffer b)
                          (do_call (LockBuffer b BUFFER_LOCK_UNLOCK)
                             (do_call (PageSetLSN b lsn) w'))
                   else w') bs w"

text \<open>
  \<^verbatim>\<open>UndoInsertInRecovery\<close>.  When no undo block is registered the function only logs a
  message and goes on to read \<^verbatim>\<open>slot\<close>, which is then uninitialised.  The first block id
  given to \<^verbatim>\<open>begin_append\<close> is \<open>-1\<close> as a \<^verbatim>\<open>uint8\<close>.  The sum
  \<^verbatim>\<open>header_size + data_size\<close> is a \<^verbatim>\<open>size_t\<close>.
\<close>

definition UndoInsertInRecovery ::
  "undo_config \<Rightarrow> XLogReaderState \<Rightarrow> byte list \<Rightarrow> world \<Rightarrow> error + (UndoRecPtr \<times> world)" where
  "UndoInsertInRecovery cfg xlog_record data w =
     (if \<not> InRecovery w then Inl (AssertFailed ''InRecovery'')
      else
        case insert_blocks cfg (blocks xlog_record)
               (\<lparr>rl_buffers = [], rl_slot = None, rl_skip = False, rl_ops = None\<rparr>, w) of
          Inl e \<Rightarrow> Inl e
        | Inr (loc, w1) \<Rightarrow>
            (case rl_slot loc of
               None \<Rightarrow> Inl (UNDEFINED ''slot is read uninitialised'')
             | Some l \<Rightarrow>
                 let st0 = (if \<not> rl_skip loc
                            then Some (begin_append (rl_buffers loc) (- 1)
                                         (MakeUndoRecPtr l (meta_insert (slots w1 l))))
                            else None);
                     r = (case rl_ops loc of
                            None \<Rightarrow> Inr (st0, w1, 0)
                          | Some ops \<Rightarrow>
                              (case replay_insert_ops cfg ops (st0, w1, 0) of
                                 Inl e \<Rightarrow> Inl e
                               | Inr (st1, w2, header_size) \<Rightarrow>
                                   if \<not> rl_skip loc
                                   then (case append_bytes_local cfg data (length data) (st1, w2) of
                                           Inl e \<Rightarrow> Inl e
                                         | Inr (st2, w3) \<Rightarrow> Inr (st2, w3, header_size))
                                   else Inr (st1, w2, header_size)))
                 in case r of
                      Inl e \<Rightarrow> Inl e
                    | Inr (st3, w4, header_size) \<Rightarrow>
                        let w5 = set_lsn_and_release (ReadRecPtr xlog_record) (rl_buffers loc) w4;
                            ins = meta_insert (slots w5 l);
                            result = UndoRecPtrPlusUsableBytes cfg (MakeUndoRecPtr l ins) header_size
                        in Inr (result,
                                w5\<lparr>slots := (slots w5)
                                     (l := (slots w5 l)\<lparr>meta_insert :=
                                        UndoLogOffsetPlusUsableBytes cfg ins
                                          ((header_size + length data) mod 2 ^ 64)\<rparr>)\<rparr>)))"

subsection \<open>Callers\<close>

text \<open>
  What a process does with record sets: the calls of the interface of this file, each on
  the record set that a pointer (an address \<open>a\<close>) names.  A call that returns leaves the
  record set changed in place.  A run stops without a result when a call is given a
  pointer to a record set that is not allocated, or when a call does not return.  The
  one exception is the \<^verbatim>\<open>ERROR\<close> of \<^verbatim>\<open>UndoCreate\<close> for an unknown type, after which
  the process goes on in the state that the call has left.
\<close>

datatype api_call =
    Create UndoRecordSetType char
  | Allocate nat nat
  | Insert nat byte "byte list"
  | PrepareToMarkClosed nat
  | MarkClosed nat
  | Release nat

definition store :: "nat \<Rightarrow> UndoRecordSet \<times> world \<Rightarrow> world" where
  "store a uw = (snd uw)\<lparr>heap := (heap (snd uw))(a := Some (fst uw))\<rparr>"

fun api_step :: "undo_config \<Rightarrow> api_call \<Rightarrow> world \<Rightarrow> world option" where
  "api_step cfg (Create t p) w =
     (case UndoCreate t p w of
        (Inr a, w') \<Rightarrow> Some w'
      | (Inl (ERROR m), w') \<Rightarrow> Some w'
      | (Inl e, w') \<Rightarrow> None)"
| "api_step cfg (Allocate a n) w =
     (case heap w a of
        None \<Rightarrow> None
      | Some urs \<Rightarrow>
          (case UndoAllocate cfg n (urs, w) of
             Inl e \<Rightarrow> None
           | Inr (p, uw) \<Rightarrow> Some (store a uw)))"
| "api_step cfg (Insert a fbi data) w =
     (case heap w a of
        None \<Rightarrow> None
      | Some urs \<Rightarrow>
          (case UndoInsert cfg fbi data (urs, w) of
             Inl e \<Rightarrow> None
           | Inr uw \<Rightarrow> Some (store a uw)))"
| "api_step cfg (PrepareToMarkClosed a) w =
     (case heap w a of
        None \<Rightarrow> None
      | Some urs \<Rightarrow> Some (store a (UndoPrepareToMarkClosed cfg (urs, w))))"
| "api_step cfg (MarkClosed a) w =
     (case heap w a of
        None \<Rightarrow> None
      | Some urs \<Rightarrow>
          (case UndoMarkClosed cfg (urs, w) of
             Inl e \<Rightarrow> None
           | Inr uw \<Rightarrow> Some (store a uw)))"
| "api_step cfg (Release a) w =
     (case UndoRelease a w of Inl e \<Rightarrow> None | Inr w' \<Rightarrow> Some w')"

fun run :: "undo_config \<Rightarrow> api_call list \<Rightarrow> world \<Rightarrow> world option" where
  "run cfg [] w = Some w"
| "run cfg (c # cs) w =
     (case api_step cfg c w of None \<Rightarrow> None | Some w' \<Rightarrow> run cfg cs w')"

text \<open>
  What the calls made say, without looking at any state, about the record sets that the
  process holds: for each address, whether a record set created there is still held, and
  if so whether it has been marked closed.  \<^verbatim>\<open>UndoCreate\<close> of a known type creates a
  record set, not closed, at the next address; \<^verbatim>\<open>UndoMarkClosed\<close> marks a held record
  set closed; \<^verbatim>\<open>UndoRelease\<close> gives up a held record set that has been marked closed and
  no other; the other calls change nothing.
\<close>

fun held_step :: "api_call \<Rightarrow> nat \<times> (nat \<rightharpoonup> bool) \<Rightarrow> nat \<times> (nat \<rightharpoonup> bool)" where
  "held_step (Create t p) (nx, m) =
     (case urst_header_size t of
        Inl e \<Rightarrow> (nx, m)
      | Inr k \<Rightarrow> (Suc nx, m(nx \<mapsto> False)))"
| "held_step (MarkClosed a) (nx, m) =
     (case m a of None \<Rightarrow> (nx, m) | Some c \<Rightarrow> (nx, m(a \<mapsto> True)))"
| "held_step (Release a) (nx, m) =
     (if m a = Some True then (nx, m(a := None)) else (nx, m))"
| "held_step (Allocate a n) (nx, m) = (nx, m)"
| "held_step (Insert a fbi data) (nx, m) = (nx, m)"
| "held_step (PrepareToMarkClosed a) (nx, m) = (nx, m)"

definition record_sets_held :: "api_call list \<Rightarrow> nat \<Rightarrow> (nat \<rightharpoonup> bool)" where
  "record_sets_held cs nx = snd (fold held_step cs (nx, Map.empty))"

text \<open>
  How a world and such an account of the calls agree: the allocated record sets and
  their flags \<^verbatim>\<open>closed\<close> are those of the account, the list of live record sets holds
  each of them once and nothing else, the next address is that of the account and above
  every address in use, and the memory context exists, so that the exit callback is
  registered, once a record set is held.
\<close>

definition held_inv :: "world \<Rightarrow> nat \<times> (nat \<rightharpoonup> bool) \<Rightarrow> bool" where
  "held_inv w h \<longleftrightarrow>
     (\<forall>a. map_option closed (heap w a) = snd h a) \<and>
     distinct (UndoRecordSetList w) \<and>
     set (UndoRecordSetList w) = dom (snd h) \<and>
     next_addr w = fst h \<and>
     (\<forall>a. snd h a \<noteq> None \<longrightarrow> a < fst h) \<and>
     (dom (snd h) \<noteq> {} \<longrightarrow> UndoRecordSetContext w)"

text \<open>A process that has not yet created a record set.\<close>

definition fresh_process :: "world \<Rightarrow> bool" where
  "fresh_process w \<longleftrightarrow>
     UndoRecordSetList w = [] \<and> heap w = (\<lambda>a. None) \<and> \<not> UndoRecordSetContext w"

text \<open>
  The caller discipline of allocation: one cycle is \<^verbatim>\<open>UndoAllocate\<close>, \<^verbatim>\<open>UndoInsert\<close> and
  \<^verbatim>\<open>UndoRelease\<close> on the record set at address \<open>a\<close>; a request is the size asked for, the
  first block id and the data inserted.
\<close>

definition cycle :: "undo_config \<Rightarrow> nat \<Rightarrow> nat \<times> byte \<times> byte list \<Rightarrow> world \<Rightarrow> error + world" where
  "cycle cfg a req w =
     (case req of (data_size, fbi, data) \<Rightarrow>
      case heap w a of
        None \<Rightarrow> Inl (UNDEFINED ''urs is not an allocated record set'')
      | Some urs \<Rightarrow>
          (case UndoAllocate cfg data_size (urs, w) of
             Inl e \<Rightarrow> Inl e
           | Inr (p, urs1, w1) \<Rightarrow>
               (case UndoInsert cfg fbi data (urs1, w1) of
                  Inl e \<Rightarrow> Inl e
                | Inr (urs2, w2) \<Rightarrow> UndoRelease a (w2\<lparr>heap := (heap w2)(a := Some urs2)\<rparr>))))"

fun cycles :: "undo_config \<Rightarrow> nat \<Rightarrow> (nat \<times> byte \<times> byte list) list \<Rightarrow> world \<Rightarrow> error + world" where
  "cycles cfg a [] w = Inr w"
| "cycles cfg a (r # rs) w =
     (case cycle cfg a r w of Inl e \<Rightarrow> Inl e | Inr w' \<Rightarrow> cycles cfg a rs w')"

text \<open>
  The book-keeping of record sets in a world: the allocated record sets, the list of
  live record sets, whether the memory context has been created, and the next address
  that \<^verbatim>\<open>palloc0\<close> hands out.
\<close>

definition registry :: "world \<Rightarrow> (nat \<Rightarrow> UndoRecordSet option) \<times> nat list \<times> bool \<times> nat" where
  "registry w = (heap w, UndoRecordSetList w, UndoRecordSetContext w, next_addr w)"

subsection \<open>Concrete states\<close>

text \<open>
  A configuration with PostgreSQL's default block size, the 24-byte page header as block
  header, and logs of one terabyte; and a world of zeroed pages in which the block
  \<open>blk\<close> of log \<open>l\<close> is held by buffer \<open>100 * l + blk\<close>.
\<close>

definition example_config :: undo_config where
  "example_config =
     \<lparr>BLCKSZ = 8192, UndoLogBlockHeaderSize = 24, UndoLogMaxSize = 1099511627776,
      urst_value = (\<lambda>t. case t of URST_TRANSACTION \<Rightarrow> 1 | URST_FOO \<Rightarrow> 2 | URST_UNKNOWN \<Rightarrow> 0)\<rparr>"

definition example_world :: world where
  "example_world =
     \<lparr>slots = (\<lambda>l. \<lparr>meta_insert = 24, log_end = 0\<rparr>),
      available = [],
      pages = (\<lambda>b. \<lparr>contents = replicate 8192 0\<rparr>),
      buffer_for = (\<lambda>l blk. 100 * int l + int blk),
      tag_of = (\<lambda>b. (nat (b div 100), nat (b mod 100))),
      InRecovery = False, calls = [], heap = (\<lambda>a. None),
      UndoRecordSetList = [], UndoRecordSetContext = False, next_addr = 0\<rparr>"

text \<open>
  A record set after some insertions, with one chunk on log 1 whose header starts at the
  last byte of block 0 (offset 8191); the log's insert position is 17384.
\<close>

definition straddle_urs :: UndoRecordSet where
  "straddle_urs =
     \<lparr>urs_type = URST_FOO, persistence = CHR ''p'',
      chunks = [\<lparr>chunk_slot = 1, chunk_header_offset = 8191,
                 chunk_header_buffer_index0 = -1, chunk_header_buffer_index1 = -1,
                 chunk_header_ops0 = replicate 4 0, chunk_header_ops1 = replicate 4 0\<rparr>],
      max_chunks = 1, first_block_id = 0, buffers = [], max_buffers = 2,
      previous_chunk = 0, need_chunk_header = False, need_type_header = False,
      chunk_header = \<lparr>hdr_size = 0, hdr_previous_chunk = 0, hdr_type = URST_FOO\<rparr>,
      type_header = replicate 64 0, type_header_size = 8,
      slot = Some 1, closed = False, recent_end = 24576\<rparr>"

definition straddle_world :: world where
  "straddle_world = example_world\<lparr>slots := (\<lambda>l. \<lparr>meta_insert = 17384, log_end = 24576\<rparr>)\<rparr>"

text \<open>
  A world in which the allocator hands out log 1, whose insert position is 100 bytes
  below the maximum size of a log, and then log 2, which is empty.
\<close>

definition full_log_world :: world where
  "full_log_world = example_world\<lparr>
      slots := (\<lambda>l. if l = 1 then \<lparr>meta_insert = 1099511627676, log_end = 1099511627776\<rparr>
                     else \<lparr>meta_insert = 24, log_end = 0\<rparr>),
      available := [1, 2]\<rparr>"

text \<open>
  A WAL record with one undo block (block 0 of log 1) that recovery does not find, with
  the insert entry of a two-byte header attached to it; and the world of a recovery.
\<close>

definition notfound_record :: XLogReaderState where
  "notfound_record =
     \<lparr>blocks = [\<lparr>in_use = True, is_undo = True, relNode = 1, blkno = 0, will_init = False,
                  block_data = Some [2, 0xAA, 0xBB],
                  redo_action = BLK_NOTFOUND, redo_buffer = 0\<rparr>],
      ReadRecPtr = 1000\<rparr>"

definition recovery_world :: world where
  "recovery_world = example_world\<lparr>InRecovery := True\<rparr>"

text \<open>A world in which the record set at address 0 holds two pinned buffers.\<close>

definition pinned_world :: world where
  "pinned_world =
     example_world\<lparr>heap := (\<lambda>a. None)(0 := Some (straddle_urs\<lparr>buffers := [100, 101]\<rparr>)),
                    UndoRecordSetList := [0], UndoRecordSetContext := True, next_addr := 1\<rparr>"

text \<open>
  A world in which the allocator hands out log 1, which is filled up to offset 1000 and
  has its end at 8192.  The first insertion of a record set of type \<^verbatim>\<open>URST_FOO\<close> created
  there writes its chunk header (24 bytes) and its type header (8 bytes) at offset 1000
  of block 0, which is held by buffer 100.
\<close>

definition used_log_world :: world where
  "used_log_world =
     example_world\<lparr>slots := (\<lambda>l. \<lparr>meta_insert = 1000, log_end = 8192\<rparr>), available := [1]\<rparr>"

text \<open>
  The insert entries for these two headers: the length 24 and the chunk header, the
  length 8 and the type header; and the data that a WAL record under construction has
  attached to a block id (\<^verbatim>\<open>XLogRegisterBufData\<close>), in the order of the calls.
\<close>

definition pending_headers :: "byte list" where
  "pending_headers =
     [24] @ chunk_header_image example_config
              \<lparr>hdr_size = 0, hdr_previous_chunk = 0, hdr_type = URST_FOO\<rparr>
       @ [8] @ replicate 8 0"

fun registered_data :: "byte \<Rightarrow> call list \<Rightarrow> byte list" where
  "registered_data i [] = []"
| "registered_data i (XLogRegisterBufData j d # cs) =
     (if i = j then d @ registered_data i cs else registered_data i cs)"
| "registered_data i (c # cs) = registered_data i cs"

text \<open>
  A WAL record whose one undo block, block 0 of log 1, recovery restores from a full-page
  image into buffer 100, with or without data attached to the block; and a world in
  recovery in which the insert pointers kept in shared memory are stale.
\<close>

definition restored_record :: "byte list option \<Rightarrow> XLogReaderState" where
  "restored_record d =
     \<lparr>blocks = [\<lparr>in_use = True, is_undo = True, relNode = 1, blkno = 0, will_init = False,
                  block_data = d, redo_action = BLK_RESTORED, redo_buffer = 100\<rparr>],
      ReadRecPtr = 2000\<rparr>"

definition stale_recovery_world :: "world \<Rightarrow> world" where
  "stale_recovery_world w =
     w\<lparr>InRecovery := True, slots := (\<lambda>l. \<lparr>meta_insert = 4000, log_end = 8192\<rparr>)\<rparr>"

text \<open>
  A WAL record whose one undo block is block 524288 of log 2, at 4 GiB, restored from a
  full-page image into buffer 300; and a world in recovery in which the page of that
  buffer has the cursor 64.
\<close>

definition far_record :: XLogReaderState where
  "far_record =
     \<lparr>blocks = [\<lparr>in_use = True, is_undo = True, relNode = 2, blkno = 524288, will_init = False,
                  block_data = None, redo_action = BLK_RESTORED, redo_buffer = 300\<rparr>],
      ReadRecPtr = 2000\<rparr>"

definition far_world :: world where
  "far_world =
     example_world\<lparr>InRecovery := True,
       pages := (pages example_world)
                  (300 := \<lparr>contents = replicate 12 0 @ [64, 0] @ replicate 8178 0\<rparr>)\<rparr>"

section \<open>Properties\<close>

declare apply_update_ops.simps [simp del]
declare reserve_physical_undo.simps [simp del]
declare append_bytes.simps [simp del]
declare pin_buffers.simps [simp del]
declare replay_insert_ops.simps [simp del]

lemma le_bytes_numeral [simp]:
  "le_bytes (numeral k) v = of_nat v # le_bytes (pred_numeral k) (v div 256)"
  by (subst numeral_eq_Suc) (rule le_bytes.simps)

lemma le_value_zeroes [simp]: "le_value (replicate n 0) = 0"
  by (induction n) simp_all

lemmas example_defs =
  example_config_def example_world_def straddle_urs_def straddle_world_def
  full_log_world_def notfound_record_def recovery_world_def

lemmas undo_pointer_defs =
  MakeUndoRecPtr_def UndoRecPtrGetBlockNum_def UndoRecPtrGetPageOffset_def
  UndoLogOffsetPlusUsableBytes_def UndoRecPtrPlusUsableBytes_def

lemmas replay_insert_ops_unfold =
  replay_insert_ops.simps [of _ "[]"] replay_insert_ops.simps [of _ "b # bs" for b bs]

lemmas loop_unfold =
  reserve_physical_undo.simps [of _ _ "(urs, w)" for urs w]
  pin_buffers.simps [of _ _ _ "(urs, w)" for urs w]
  append_bytes.simps [of _ _ _ "(st, w)" for st w]

lemmas reserve_defs =
  use_active_log_def start_new_chunk_def UndoLogGetForPersistence_def
  pending_type_header_size_def pending_chunk_header_size_def UndoRecordSetChunkHeaderSize_def
  UndoLogAdjustPhysicalRange_def do_call_def Let_def

lemmas insert_defs =
  UndoAllocate_def reserve_buffer_array_def PageInit_def lock_buffers_def
  UndoInsert_def begin_append_def touch_buffer_def memcpy_page_def chunk_header_image_def
  set_pd_lower_def

subsection \<open>Closing across a page boundary\<close>

text \<open>
  C1.  The property says that \<^verbatim>\<open>UndoMarkClosed\<close> leaves, in every chunk header, a size
  field equal to the insert position minus the header offset, also when the header
  straddles a page boundary, the bytes that do not fit on the first page going to the
  start of the usable area of the next page.  The code copies those bytes to
  \<^verbatim>\<open>BufferGetPage(buffer)\<close>, offset 0 of the next page, not past its block header.
  For the chunk whose header starts at offset 8191 of a log with insert position 17384,
  \<^verbatim>\<open>UndoPrepareToMarkClosed\<close> and \<^verbatim>\<open>UndoMarkClosed\<close> succeed; the size to store is 9193;
  the size field read back from the header's place (the last byte of block 0 and the
  first seven usable bytes of block 1, which start at offset 24) is 233; and bytes 0 to
  6 of block 1, in its block header, hold the seven upper bytes of the size.
\<close>

theorem size_spill_written_into_block_header:
  "(case UndoMarkClosed example_config
           (UndoPrepareToMarkClosed example_config (straddle_urs, straddle_world)) of
      Inl e \<Rightarrow> None
    | Inr (urs', w') \<Rightarrow>
        Some (closed urs',
              meta_insert (slots w' 1) - 8191,
              le_value (page_bytes (pages w' 100) 8191 1 @ page_bytes (pages w' 101) 24 7),
              page_bytes (pages w' 101) 0 7))
   = Some (True, 9193, 233, [35, 0, 0, 0, 0, 0, 0])"
  by (simp add: example_defs UndoPrepareToMarkClosed_def prepare_chunk_def
        find_or_read_buffer_def reserve_buffer_array_def do_call_def sizeof_UndoLogOffset_def
        Let_def UndoMarkClosed_def close_chunk_def buffer_at_def memcpy_page_def page_bytes_def
        write_update_ops_header_def write_update_ops_header_failure_def)

text \<open>
  C2.  The property says that each page touched by the patch gets, under its own block
  id, an update opcode with the offset and length of the bytes patched on that page,
  followed by those bytes, and that the second page's opcode carries the second page's
  offset and the remaining length.  On the same input the calls made are these.  The
  first page (buffer 100, index 0) is registered under block id 0 with the opcode
  \<open>[0x9F, 0xFF, 0x00, 0x01]\<close> (offset 8191, length 1) and the byte written.  The second
  page (buffer 101, index 1) is registered under block id 101, its buffer handle added
  to the first block id; its data is attached under block id 1; the opcode is again
  \<open>[0x9F, 0xFF, 0x00, 0x01]\<close>, the first page's offset and length, where seven bytes
  were written at offset 0; and the literal is the one byte at offset 8191 of the second
  page, not the seven bytes written.
\<close>

theorem second_page_opcode_repeats_first_page:
  "(case UndoMarkClosed example_config
           (UndoPrepareToMarkClosed example_config (straddle_urs, straddle_world)) of
      Inl e \<Rightarrow> []
    | Inr (urs', w') \<Rightarrow> calls w')
   = [LockBuffer 100 BUFFER_LOCK_EXCLUSIVE,
      LockBuffer 101 BUFFER_LOCK_EXCLUSIVE,
      MarkBufferDirty 100,
      XLogRegisterBuffer 0 100 REGBUF_NONE,
      XLogRegisterBufData 0 [0x9F, 0xFF, 0x00, 0x01],
      XLogRegisterBufData 0 [0xE9],
      MarkBufferDirty 101,
      XLogRegisterBuffer 101 101 REGBUF_NONE,
      XLogRegisterBufData 1 [0x9F, 0xFF, 0x00, 0x01],
      XLogRegisterBufData 1 [0x00]]"
  by (simp add: example_defs UndoPrepareToMarkClosed_def prepare_chunk_def
        find_or_read_buffer_def reserve_buffer_array_def do_call_def sizeof_UndoLogOffset_def
        Let_def UndoMarkClosed_def close_chunk_def buffer_at_def memcpy_page_def page_bytes_def
        write_update_ops_header_def write_update_ops_header_failure_def)

subsection \<open>Round trip of the opcode stream\<close>

text \<open>
  C3.  The property says that every update entry encoded at a valid offset and length
  (the offset at least the block header size, offset plus length at most \<^verbatim>\<open>BLCKSZ\<close>) is
  decoded and applied as the overwrite of exactly that range.  Offset 24 and length 0
  are valid in that sense, and the assertions of the encoder hold for them; the entry
  that \<^verbatim>\<open>write_update_ops_header\<close> produces for them, followed by its (empty) literal
  run, is not applied as the empty overwrite: the decoder raises the corruption error.
\<close>

theorem empty_update_does_not_round_trip:
  "write_update_ops_header_asserts example_config 24 0 \<and>
   apply_update_ops (write_update_ops_header 24 0 @ []) (replicate 8192 0) =
     Inl (ERROR ''corrupted undo update instruction'')"
  by (simp add: write_update_ops_header_asserts_def write_update_ops_header_def
        example_config_def apply_update_ops.simps)

subsection \<open>Bounds checks of the update decoder\<close>

text \<open>
  C4.  The property says that an update entry is accepted whenever its four header bytes and
  its literal bytes lie within the stream, "including one with length 0 whose 4 header
  bytes are the last 4 bytes of the stream".  The first bounds check of the decode loop is
  \<^verbatim>\<open>ops + 4 >= ops_end\<close>, so it also refuses an entry whose header ends exactly at the
  end of the stream: the stream below is one insert entry (two literal bytes) followed by
  an update entry of length 0 at page offset 24, nothing of which lies past the end of the
  stream, and the decoder raises the corruption error on any page.
\<close>

theorem update_header_at_stream_end_refused:
  "apply_update_ops ([2, 0xAA, 0xBB] @ [0x80, 0x18, 0x00, 0x00]) pg =
     Inl (ERROR ''corrupted undo update instruction'')"
  by (simp add: apply_update_ops.simps)

subsection \<open>What the calls leave alone\<close>

text \<open>
  Reservation, allocation, insertion and closing change a record set in place and write
  to pages, logs and the WAL record.  They leave alone the book-keeping of record sets,
  which only \<^verbatim>\<open>UndoCreate\<close> and \<^verbatim>\<open>UndoRelease\<close> touch, and the flag \<^verbatim>\<open>closed\<close>, which
  only \<^verbatim>\<open>UndoMarkClosed\<close> sets.  A reservation also leaves alone the pinned buffers, the
  type of the record set and the flag for the type header (which only \<^verbatim>\<open>UndoCreate\<close>
  sets and only \<^verbatim>\<open>UndoInsert\<close> clears).
\<close>

lemma registry_do_call [simp]: "registry (do_call c w) = registry w"
  by (simp add: registry_def do_call_def)

lemma registry_pages [simp]: "registry (w\<lparr>pages := p\<rparr>) = registry w"
  by (simp add: registry_def)

lemma registry_slots [simp]: "registry (w\<lparr>slots := s\<rparr>) = registry w"
  by (simp add: registry_def)

lemma registry_available [simp]: "registry (w\<lparr>available := s\<rparr>) = registry w"
  by (simp add: registry_def)

lemma registry_store:
  "registry w' = registry w \<Longrightarrow>
     heap (store a (urs', w')) = (heap w)(a := Some urs') \<and>
     UndoRecordSetList (store a (urs', w')) = UndoRecordSetList w \<and>
     UndoRecordSetContext (store a (urs', w')) = UndoRecordSetContext w \<and>
     next_addr (store a (urs', w')) = next_addr w"
  by (simp add: registry_def store_def)

lemma use_active_log_keeps:
  "use_active_log cfg n (urs, w) = Inr (Inl (p, urs', w')) \<Longrightarrow>
     buffers urs' = buffers urs \<and> need_type_header urs' = need_type_header urs
     \<and> need_chunk_header urs' = need_chunk_header urs \<and> urs_type urs' = urs_type urs
     \<and> closed urs' = closed urs \<and> registry w' = registry w"
  "use_active_log cfg n (urs, w) = Inr (Inr (urs'', w'')) \<Longrightarrow>
     buffers urs'' = buffers urs \<and> need_type_header urs'' = need_type_header urs
     \<and> urs_type urs'' = urs_type urs
     \<and> closed urs'' = closed urs \<and> registry w'' = registry w"
  by (auto simp: use_active_log_def Let_def UndoLogAdjustPhysicalRange_def
           split: option.splits sum.splits if_splits)

lemma use_active_log_error:
  "use_active_log cfg n uw = Inl e \<Longrightarrow> e \<noteq> AssertFailed ''urs->nbuffers == 0''"
  by (cases uw) (auto simp: use_active_log_def pending_type_header_size_def Let_def
        split: option.splits sum.splits if_splits UndoRecordSetType.splits elim: urst_header_size.elims)

lemma start_new_chunk_keeps:
  "start_new_chunk (urs, w) = Inr (urs', w') \<Longrightarrow>
     buffers urs' = buffers urs \<and> need_type_header urs' = need_type_header urs
     \<and> urs_type urs' = urs_type urs
     \<and> closed urs' = closed urs \<and> registry w' = registry w"
  by (auto simp: start_new_chunk_def UndoLogGetForPersistence_def Let_def
           split: sum.splits if_splits list.splits)

lemma start_new_chunk_error:
  "start_new_chunk uw = Inl e \<Longrightarrow> e \<noteq> AssertFailed ''urs->nbuffers == 0''"
  by (cases uw) (auto simp: start_new_chunk_def UndoLogGetForPersistence_def Let_def
        split: sum.splits if_splits list.splits)

lemma reserve_physical_undo_keeps:
  "reserve_physical_undo cfg n uw = Inr (p, urs', w') \<Longrightarrow>
     buffers urs' = buffers (fst uw) \<and> need_type_header urs' = need_type_header (fst uw)
     \<and> urs_type urs' = urs_type (fst uw)
     \<and> closed urs' = closed (fst uw) \<and> registry w' = registry (snd uw)"
proof (induction cfg n uw rule: reserve_physical_undo.induct)
  case (1 cfg data_size uw)
  show ?case
  proof (cases "use_active_log cfg data_size uw")
    case (Inl e)
    with "1.prems" show ?thesis by (simp add: reserve_physical_undo.simps [of cfg data_size uw])
  next
    case (Inr x)
    show ?thesis
    proof (cases x)
      case (Inl r)
      with Inr "1.prems" have "r = (p, urs', w')"
        by (simp add: reserve_physical_undo.simps [of cfg data_size uw])
      with Inr Inl show ?thesis
        using use_active_log_keeps(1) [of cfg data_size "fst uw" "snd uw" p urs' w'] by simp
    next
      case (Inr uw1)
      note x = this
      show ?thesis
      proof (cases "start_new_chunk uw1")
        case (Inl e)
        with \<open>use_active_log cfg data_size uw = Inr x\<close> x "1.prems" show ?thesis
          by (simp add: reserve_physical_undo.simps [of cfg data_size uw])
      next
        case (Inr uw2)
        with \<open>use_active_log cfg data_size uw = Inr x\<close> x "1.prems"
        have r: "reserve_physical_undo cfg data_size uw2 = Inr (p, urs', w')"
          by (simp add: reserve_physical_undo.simps [of cfg data_size uw])
        have ih: "buffers urs' = buffers (fst uw2) \<and> need_type_header urs' = need_type_header (fst uw2)
            \<and> urs_type urs' = urs_type (fst uw2)
            \<and> closed urs' = closed (fst uw2) \<and> registry w' = registry (snd uw2)"
          using "1.IH" [OF \<open>use_active_log cfg data_size uw = Inr x\<close> x Inr r] .
        have a: "buffers (fst uw1) = buffers (fst uw) \<and> need_type_header (fst uw1) = need_type_header (fst uw)
            \<and> urs_type (fst uw1) = urs_type (fst uw)
            \<and> closed (fst uw1) = closed (fst uw) \<and> registry (snd uw1) = registry (snd uw)"
          using use_active_log_keeps(2) [of cfg data_size "fst uw" "snd uw" "fst uw1" "snd uw1"]
            \<open>use_active_log cfg data_size uw = Inr x\<close> x by simp
        have b: "buffers (fst uw2) = buffers (fst uw1) \<and> need_type_header (fst uw2) = need_type_header (fst uw1)
            \<and> urs_type (fst uw2) = urs_type (fst uw1)
            \<and> closed (fst uw2) = closed (fst uw1) \<and> registry (snd uw2) = registry (snd uw1)"
          using start_new_chunk_keeps [of "fst uw1" "snd uw1" "fst uw2" "snd uw2"] Inr by simp
        from ih a b show ?thesis by simp
      qed
    qed
  qed
qed

lemma reserve_physical_undo_error:
  "reserve_physical_undo cfg n uw = Inl e \<Longrightarrow> e \<noteq> AssertFailed ''urs->nbuffers == 0''"
proof (induction cfg n uw rule: reserve_physical_undo.induct)
  case (1 cfg data_size uw)
  then show ?case
    by (subst (asm) reserve_physical_undo.simps)
       (auto split: sum.splits dest: use_active_log_error start_new_chunk_error)
qed

lemma pin_buffers_nothing: "pin_buffers cfg urp 0 uw = Inr uw"
  by (simp add: pin_buffers.simps [of cfg urp 0 uw])

lemma pin_buffers_grows:
  "pin_buffers cfg urp t uw = Inr uw' \<Longrightarrow>
     nbuffers (fst uw) \<le> nbuffers (fst uw') \<and> (0 < t \<longrightarrow> nbuffers (fst uw) < nbuffers (fst uw'))
     \<and> need_chunk_header (fst uw') = need_chunk_header (fst uw)
     \<and> need_type_header (fst uw') = need_type_header (fst uw)
     \<and> urs_type (fst uw') = urs_type (fst uw)
     \<and> closed (fst uw') = closed (fst uw) \<and> registry (snd uw') = registry (snd uw)"
proof (induction cfg urp t uw rule: pin_buffers.induct)
  case (1 cfg urp total_size uw)
  show ?case
  proof (cases "total_size = 0")
    case True
    with "1.prems" show ?thesis by (simp add: pin_buffers_nothing)
  next
    case False
    from "1.prems" False have room: "\<not> max_buffers (fst uw) \<le> nbuffers (fst uw)"
      by (simp add: pin_buffers.simps [of cfg urp total_size uw] split: if_splits)
    let ?buffer = "buffer_for (snd uw) (urp_logno urp) (UndoRecPtrGetBlockNum cfg urp mod 2 ^ 32)"
    let ?urs1 = "(fst uw)\<lparr>buffers := buffers (fst uw) @ [?buffer]\<rparr>"
    let ?w1 = "(if UndoRecPtrGetPageOffset cfg urp = UndoLogBlockHeaderSize cfg
                  then (snd uw)\<lparr>pages := (pages (snd uw))(?buffer := PageInit cfg)\<rparr>
                  else snd uw)"
    let ?n = "min (BLCKSZ cfg - UndoRecPtrGetPageOffset cfg urp) total_size"
    from "1.prems" False room have r: "pin_buffers cfg urp (total_size - ?n) (?urs1, ?w1) = Inr uw'"
      by (subst (asm) pin_buffers.simps) (simp add: Let_def split: if_splits)
    have "nbuffers (fst (?urs1, ?w1)) \<le> nbuffers (fst uw')
        \<and> need_chunk_header (fst uw') = need_chunk_header (fst (?urs1, ?w1))
        \<and> need_type_header (fst uw') = need_type_header (fst (?urs1, ?w1))
        \<and> urs_type (fst uw') = urs_type (fst (?urs1, ?w1))
        \<and> closed (fst uw') = closed (fst (?urs1, ?w1))
        \<and> registry (snd uw') = registry (snd (?urs1, ?w1))"
      using "1.IH" [OF False room refl refl refl refl refl refl refl r] by simp
    then show ?thesis by simp
  qed
qed

lemma pin_buffers_error:
  "pin_buffers cfg urp t uw = Inl e \<Longrightarrow> e \<noteq> AssertFailed ''urs->nbuffers == 0''"
proof (induction cfg urp t uw rule: pin_buffers.induct)
  case (1 cfg urp total_size uw)
  then show ?case
    by (subst (asm) pin_buffers.simps) (auto simp: Let_def split: if_splits)
qed

lemma lock_buffers_registry [simp]: "registry (lock_buffers bs w) = registry w"
  unfolding lock_buffers_def
  by (induction bs arbitrary: w) simp_all

lemma UndoAllocate_keeps:
  assumes "UndoAllocate cfg n (urs, w) = Inr (p, urs1, w1)"
  shows "closed urs1 = closed urs \<and> registry w1 = registry w"
proof -
  from assms obtain b urs' w' t urs2 w2 where
    r: "reserve_physical_undo cfg n (urs, w) = Inr (b, urs', w')"
    and pin: "pin_buffers cfg b t
               (reserve_buffer_array (t div BLCKSZ cfg + 2) urs', w') = Inr (urs2, w2)"
    and u: "urs1 = urs2" "w1 = lock_buffers (buffers urs2) w2"
    by (auto simp: UndoAllocate_def Let_def split: sum.splits prod.splits if_splits)
  from reserve_physical_undo_keeps [OF r] pin_buffers_grows [OF pin] u show ?thesis
    by (simp add: reserve_buffer_array_def)
qed

lemma touch_buffer_frame:
  "pages (snd (touch_buffer cfg off (st, w))) = pages w"
  "slots (snd (touch_buffer cfg off (st, w))) = slots w"
  "InRecovery (snd (touch_buffer cfg off (st, w))) = InRecovery w"
  "registry (snd (touch_buffer cfg off (st, w))) = registry w"
  "fst (touch_buffer cfg off (st, w)) = st\<lparr>last_buffer_index := int (buffer_index st)\<rparr>"
  by (simp_all add: touch_buffer_def do_call_def Let_def registry_def)

lemma append_bytes_registry:
  "append_bytes cfg data sz sw = Inr sw' \<Longrightarrow> registry (snd sw') = registry (snd sw)"
proof (induction cfg data sz sw rule: append_bytes.induct)
  case (1 cfg data sz sw)
  obtain st w where sw: "sw = (st, w)" by (cases sw)
  from "1.prems" show ?case
    apply (subst (asm) append_bytes.simps)
    using "1.IH"
    apply (auto simp: Let_def sw touch_buffer_frame split: if_splits option.splits)
    done
qed

lemma append_bytes_error:
  "append_bytes cfg data sz sw = Inl e \<Longrightarrow> e \<noteq> AssertFailed ''urs->nbuffers == 0''"
proof (induction cfg data sz sw rule: append_bytes.induct)
  case (1 cfg data sz sw)
  from "1.prems" show ?case
    apply (subst (asm) append_bytes.simps)
    using "1.IH"
    apply (auto simp: Let_def split: if_splits option.splits)
    done
qed

lemma UndoInsert_keeps:
  "UndoInsert cfg fbi data (urs, w) = Inr (urs', w') \<Longrightarrow>
     buffers urs' = buffers urs \<and> \<not> need_chunk_header urs' \<and> \<not> need_type_header urs'
     \<and> closed urs' = closed urs \<and> registry w' = registry w"
  by (auto simp: UndoInsert_def Let_def split: option.splits sum.splits if_splits prod.splits
           dest!: append_bytes_registry)

lemma UndoInsert_error:
  "UndoInsert cfg fbi data uw = Inl e \<Longrightarrow> e \<noteq> AssertFailed ''urs->nbuffers == 0''"
  by (cases uw)
     (auto simp: UndoInsert_def Let_def split: option.splits sum.splits if_splits prod.splits
           dest: append_bytes_error)

lemma find_or_read_buffer_keeps:
  "find_or_read_buffer l blk (urs, w) = (i, urs', w') \<Longrightarrow>
     closed urs' = closed urs \<and> registry w' = registry w"
  by (auto simp: find_or_read_buffer_def reserve_buffer_array_def Let_def
           split: option.splits if_splits)

lemma prepare_chunk_keeps:
  "prepare_chunk cfg c (urs, w) = (c', urs', w') \<Longrightarrow>
     closed urs' = closed urs \<and> registry w' = registry w"
  by (auto simp: prepare_chunk_def Let_def split: prod.splits if_splits
           dest!: find_or_read_buffer_keeps)

lemma prepare_chunks_keeps:
  "prepare_chunks cfg cs (urs, w) = (cs', urs', w') \<Longrightarrow>
     closed urs' = closed urs \<and> registry w' = registry w"
proof (induction cs arbitrary: urs w cs')
  case Nil
  then show ?case by simp
next
  case (Cons c cs)
  then show ?case
    by (auto split: prod.splits dest!: prepare_chunk_keeps)
qed

lemma UndoPrepareToMarkClosed_keeps:
  "UndoPrepareToMarkClosed cfg (urs, w) = (urs', w') \<Longrightarrow>
     closed urs' = closed urs \<and> registry w' = registry w"
  by (auto simp: UndoPrepareToMarkClosed_def split: prod.splits dest!: prepare_chunks_keeps)

lemma close_chunk_registry:
  "close_chunk cfg urs c w = Inr (c', w') \<Longrightarrow> registry w' = registry w"
  by (auto simp: close_chunk_def Let_def split: option.splits if_splits)

lemma close_chunks_registry:
  "close_chunks cfg urs cs w = Inr (cs', w') \<Longrightarrow> registry w' = registry w"
proof (induction cs arbitrary: w cs')
  case Nil
  then show ?case by simp
next
  case (Cons c cs)
  then show ?case
    by (auto split: sum.splits prod.splits dest!: close_chunk_registry)
qed

lemma UndoMarkClosed_keeps:
  "UndoMarkClosed cfg (urs, w) = Inr (urs', w') \<Longrightarrow> closed urs' \<and> registry w' = registry w"
  by (auto simp: UndoMarkClosed_def split: sum.splits prod.splits dest!: close_chunks_registry)

subsection \<open>Release and process exit\<close>

lemma release_buffers_calls:
  "calls (release_buffers bs w) =
     calls w @ concat (map (\<lambda>b. [LockBuffer b BUFFER_LOCK_UNLOCK, ReleaseBuffer b]) bs)"
  unfolding release_buffers_def
  by (induction bs arbitrary: w) (simp_all add: do_call_def)

lemma release_buffers_frame:
  "heap (release_buffers bs w) = heap w"
  "UndoRecordSetList (release_buffers bs w) = UndoRecordSetList w"
  "UndoRecordSetContext (release_buffers bs w) = UndoRecordSetContext w"
  "next_addr (release_buffers bs w) = next_addr w"
  "slots (release_buffers bs w) = slots w"
  "pages (release_buffers bs w) = pages w"
  "available (release_buffers bs w) = available w"
  unfolding release_buffers_def
  by (induction bs arbitrary: w) (simp_all add: do_call_def)

lemma put_logs_calls:
  "calls (put_logs cs w) = calls w @ map (\<lambda>c. UndoLogPut (chunk_slot c)) cs"
  unfolding put_logs_def
  by (induction cs arbitrary: w) (simp_all add: do_call_def)

lemma put_logs_frame:
  "heap (put_logs cs w) = heap w"
  "UndoRecordSetList (put_logs cs w) = UndoRecordSetList w"
  "UndoRecordSetContext (put_logs cs w) = UndoRecordSetContext w"
  "next_addr (put_logs cs w) = next_addr w"
  "slots (put_logs cs w) = slots w"
  "pages (put_logs cs w) = pages w"
  "available (put_logs cs w) = available w"
  unfolding put_logs_def
  by (induction cs arbitrary: w) (simp_all add: do_call_def)

text \<open>
  C6.  \<^verbatim>\<open>UndoRelease\<close> on an allocated record set returns normally.  It unlocks and
  releases each pinned buffer, in order, and nothing else happens to buffers.  If the
  record set is closed it then returns the log of each chunk to its free list
  (\<^verbatim>\<open>UndoLogPut\<close>), takes the record set out of the list of live record sets and frees
  it.  If the record set is not closed, no log is returned, the record set stays
  allocated, now with no pinned buffer, and the list is as before.  Other record sets
  are not touched.
\<close>

theorem UndoRelease_effect:
  assumes "heap w a = Some urs"
  shows "\<exists>w'. UndoRelease a w = Inr w' \<and>
     calls w' = calls w
        @ concat (map (\<lambda>b. [LockBuffer b BUFFER_LOCK_UNLOCK, ReleaseBuffer b]) (buffers urs))
        @ (if closed urs then map (\<lambda>c. UndoLogPut (chunk_slot c)) (chunks urs) else []) \<and>
     (if closed urs
      then heap w' a = None \<and> UndoRecordSetList w' = remove1 a (UndoRecordSetList w)
      else heap w' a = Some (urs\<lparr>buffers := []\<rparr>) \<and> UndoRecordSetList w' = UndoRecordSetList w) \<and>
     (\<forall>b. b \<noteq> a \<longrightarrow> heap w' b = heap w b)"
  using assms
  by (simp add: UndoRelease_def Let_def release_buffers_calls release_buffers_frame
        put_logs_calls put_logs_frame)

theorem UndoRelease_effect_witness:
  "heap pinned_world 0 = Some (straddle_urs\<lparr>buffers := [100, 101]\<rparr>) \<and>
   (\<exists>w'. UndoRelease 0 pinned_world = Inr w' \<and>
      calls w' = [LockBuffer 100 BUFFER_LOCK_UNLOCK, ReleaseBuffer 100,
                  LockBuffer 101 BUFFER_LOCK_UNLOCK, ReleaseBuffer 101] \<and>
      heap w' 0 = Some (straddle_urs\<lparr>buffers := []\<rparr>) \<and>
      UndoRecordSetList w' = [0])"
proof -
  have h: "heap pinned_world 0 = Some (straddle_urs\<lparr>buffers := [100, 101]\<rparr>)"
    by (simp add: pinned_world_def)
  have c: "\<not> closed (straddle_urs\<lparr>buffers := [100, 101]\<rparr>)"
    by (simp add: straddle_urs_def)
  from UndoRelease_effect [OF h] c show ?thesis
    by (auto simp add: h pinned_world_def example_world_def)
qed

lemma held_inv_fresh: "fresh_process w \<Longrightarrow> held_inv w (next_addr w, Map.empty)"
  by (simp add: fresh_process_def held_inv_def)

lemma held_inv_store:
  assumes "held_inv w h" and "heap w a = Some urs"
    and "closed urs' = closed urs" and "registry w' = registry w"
  shows "held_inv (store a (urs', w')) h"
proof -
  from assms(1,2) have "snd h a = Some (closed urs)"
    by (auto simp: held_inv_def dest: spec [of _ a])
  with assms(1,3) registry_store [OF assms(4), of a urs'] show ?thesis
    by (auto simp: held_inv_def)
qed

lemma held_inv_store_closed:
  assumes "held_inv w h" and "heap w a = Some urs"
    and "closed urs'" and "registry w' = registry w"
  shows "held_inv (store a (urs', w')) (held_step (MarkClosed a) h)"
proof -
  obtain nx m where h: "h = (nx, m)" by (cases h)
  from assms(1,2) h have m: "m a = Some (closed urs)"
    by (auto simp: held_inv_def dest: spec [of _ a])
  with assms(1,3) h registry_store [OF assms(4), of a urs'] show ?thesis
    by (auto simp: held_inv_def)
qed

lemma held_inv_create:
  assumes "held_inv w h" and "api_step cfg (Create t p) w = Some w'"
  shows "held_inv w' (held_step (Create t p) h)"
proof -
  obtain nx m where h: "h = (nx, m)" by (cases h)
  from assms(1) h have nx: "next_addr w = nx" and lt: "\<forall>a. m a \<noteq> None \<longrightarrow> a < nx"
    and hp: "\<forall>a. map_option closed (heap w a) = m a"
    and st: "set (UndoRecordSetList w) = dom m"
    by (simp_all add: held_inv_def)
  from lt have m: "m nx = None" by (metis less_irrefl)
  with hp [rule_format, of nx] have "heap w nx = None" by simp
  moreover from m st have "nx \<notin> set (UndoRecordSetList w)" by auto
  ultimately have fresh: "m nx = None" "heap w nx = None" "nx \<notin> set (UndoRecordSetList w)"
    using m by simp_all
  from assms h fresh show ?thesis
    by (cases t) (auto simp: held_inv_def UndoCreate_def Let_def)
qed

lemma held_inv_release:
  assumes "held_inv w h" and "api_step cfg (Release a) w = Some w'"
  shows "held_inv w' (held_step (Release a) h)"
proof -
  obtain nx m where h: "h = (nx, m)" by (cases h)
  from assms(2) obtain urs where u: "heap w a = Some urs"
    by (auto simp: UndoRelease_def split: option.splits)
  from assms(1) u h have m: "m a = Some (closed urs)"
    by (auto simp: held_inv_def dest: spec [of _ a])
  show ?thesis
  proof (cases "closed urs")
    case True
    with assms u h m show ?thesis
      by (auto simp: held_inv_def UndoRelease_def Let_def release_buffers_frame put_logs_frame
               split: if_splits)
  next
    case False
    with assms u h m show ?thesis
      by (auto simp: held_inv_def UndoRelease_def Let_def release_buffers_frame put_logs_frame
               split: if_splits)
  qed
qed

lemma held_inv_step:
  assumes "held_inv w h" and "api_step cfg c w = Some w'"
  shows "held_inv w' (held_step c h)"
proof (cases c)
  case (Create t p)
  with assms show ?thesis by (simp only: held_inv_create)
next
  case (Allocate a n)
  with assms(2) obtain urs q urs1 w1 where
    "heap w a = Some urs" "UndoAllocate cfg n (urs, w) = Inr (q, urs1, w1)"
    "w' = store a (urs1, w1)"
    by (auto split: option.splits sum.splits)
  with assms(1) Allocate UndoAllocate_keeps [of cfg n urs w q urs1 w1] show ?thesis
    by (cases h) (simp add: held_inv_store)
next
  case (Insert a fbi data)
  with assms(2) obtain urs urs1 w1 where
    "heap w a = Some urs" "UndoInsert cfg fbi data (urs, w) = Inr (urs1, w1)"
    "w' = store a (urs1, w1)"
    by (auto split: option.splits sum.splits)
  with assms(1) Insert UndoInsert_keeps [of cfg fbi data urs w urs1 w1] show ?thesis
    by (cases h) (simp add: held_inv_store)
next
  case (PrepareToMarkClosed a)
  with assms(2) obtain urs urs1 w1 where
    "heap w a = Some urs" "UndoPrepareToMarkClosed cfg (urs, w) = (urs1, w1)"
    "w' = store a (urs1, w1)"
    by (auto split: option.splits) (metis surj_pair)
  with assms(1) PrepareToMarkClosed UndoPrepareToMarkClosed_keeps [of cfg urs w urs1 w1]
  show ?thesis
    by (cases h) (simp add: held_inv_store)
next
  case (MarkClosed a)
  with assms(2) obtain urs urs1 w1 where
    "heap w a = Some urs" "UndoMarkClosed cfg (urs, w) = Inr (urs1, w1)"
    "w' = store a (urs1, w1)"
    by (auto split: option.splits sum.splits)
  with assms(1) MarkClosed UndoMarkClosed_keeps [of cfg urs w urs1 w1] show ?thesis
    by (simp only: held_inv_store_closed)
next
  case (Release a)
  with assms show ?thesis by (simp only: held_inv_release)
qed

lemma held_inv_run:
  "held_inv w h \<Longrightarrow> run cfg cs w = Some w' \<Longrightarrow> held_inv w' (fold held_step cs h)"
proof (induction cs arbitrary: w h)
  case Nil
  then show ?case by simp
next
  case (Cons c cs)
  from Cons.prems(2) obtain w1 where s: "api_step cfg c w = Some w1" and r: "run cfg cs w1 = Some w'"
    by (auto split: option.splits)
  from Cons.IH [OF held_inv_step [OF Cons.prems(1) s] r] show ?case by simp
qed

text \<open>
  C9.  Take any run of calls of the interface that a process makes from its start, each
  call returning.  The record sets that are allocated at the end, and their flags
  \<^verbatim>\<open>closed\<close>, are exactly those that the calls account for: each record set that
  \<^verbatim>\<open>UndoCreate\<close> created is held, and is not closed until \<^verbatim>\<open>UndoMarkClosed\<close> is called on
  it, and is held until \<^verbatim>\<open>UndoRelease\<close> is called on it after that; the list of live
  record sets holds them, each once.  The exit callback raises its \<^verbatim>\<open>PANIC\<close> exactly when
  the list is not empty, and process exit raises it exactly when the calls leave a
  record set held, that is, when some record set that was created has not been released
  after it was closed; otherwise process exit is clean.
\<close>

theorem exit_panics_iff_record_set_left:
  assumes "fresh_process w0" and "run cfg cs w0 = Some w"
  shows "(\<forall>a. map_option closed (heap w a) = record_sets_held cs (next_addr w0) a)
       \<and> distinct (UndoRecordSetList w)
       \<and> set (UndoRecordSetList w) = dom (record_sets_held cs (next_addr w0))
       \<and> (AtProcExit_UndoRecordSet w = Inl (PANIC ''undo record set not closed before backend exit'')
            \<longleftrightarrow> UndoRecordSetList w \<noteq> [])
       \<and> (proc_exit w = Inl (PANIC ''undo record set not closed before backend exit'')
            \<longleftrightarrow> dom (record_sets_held cs (next_addr w0)) \<noteq> {})
       \<and> (proc_exit w = Inr () \<longleftrightarrow> dom (record_sets_held cs (next_addr w0)) = {})"
proof -
  let ?m = "record_sets_held cs (next_addr w0)"
  have inv: "held_inv w (fold held_step cs (next_addr w0, Map.empty))"
    using held_inv_run [OF held_inv_fresh [OF assms(1)] assms(2)] .
  then have h: "\<forall>a. map_option closed (heap w a) = ?m a"
    and d: "distinct (UndoRecordSetList w)"
    and s: "set (UndoRecordSetList w) = dom ?m"
    and c: "dom ?m \<noteq> {} \<longrightarrow> UndoRecordSetContext w"
    by (simp_all add: held_inv_def record_sets_held_def)
  have l: "UndoRecordSetList w \<noteq> [] \<longleftrightarrow> dom ?m \<noteq> {}"
    using s by (metis set_empty)
  show ?thesis
    using h d s c l by (auto simp: AtProcExit_UndoRecordSet_def proc_exit_def)
qed

theorem exit_panics_iff_record_set_left_witness:
  "fresh_process full_log_world \<and>
   (\<exists>w. run example_config
           [Create URST_FOO (CHR ''p''), Allocate 0 100, Insert 0 0 (replicate 100 7), Release 0,
            PrepareToMarkClosed 0, MarkClosed 0, Release 0] full_log_world = Some w \<and>
        heap w 0 = None \<and> UndoRecordSetList w = [] \<and> proc_exit w = Inr ()) \<and>
   (\<exists>w. run example_config
           [Create URST_FOO (CHR ''p''), Allocate 0 100, Insert 0 0 (replicate 100 7), Release 0]
           full_log_world = Some w \<and>
        map_option closed (heap w 0) = Some False \<and> set (UndoRecordSetList w) = {0} \<and>
        proc_exit w = Inl (PANIC ''undo record set not closed before backend exit'')) \<and>
   (\<exists>w. run example_config
           [Create URST_FOO (CHR ''p''), PrepareToMarkClosed 0, MarkClosed 0] full_log_world = Some w \<and>
        map_option closed (heap w 0) = Some True \<and> set (UndoRecordSetList w) = {0} \<and>
        proc_exit w = Inl (PANIC ''undo record set not closed before backend exit''))"
proof -
  let ?c1 = "[Create URST_FOO (CHR ''p''), Allocate 0 100, Insert 0 0 (replicate 100 7), Release 0,
              PrepareToMarkClosed 0, MarkClosed 0, Release 0]"
  let ?c2 = "[Create URST_FOO (CHR ''p''), Allocate 0 100, Insert 0 0 (replicate 100 7), Release 0]"
  let ?c3 = "[Create URST_FOO (CHR ''p''), PrepareToMarkClosed 0, MarkClosed 0]"
  have f: "fresh_process full_log_world"
    by (simp add: fresh_process_def example_defs)
  have n: "next_addr full_log_world = 0"
    by (simp add: example_defs)
  have h1: "record_sets_held ?c1 0 = Map.empty"
    and h2: "record_sets_held ?c2 0 = [0 \<mapsto> False]"
    and h3: "record_sets_held ?c3 0 = [0 \<mapsto> True]"
    by (simp_all add: record_sets_held_def)
  obtain w1 where r1: "run example_config ?c1 full_log_world = Some w1"
    by (simp add: store_def UndoCreate_def UndoRelease_def release_buffers_def put_logs_def
          loop_unfold reserve_defs insert_defs example_defs undo_pointer_defs
          UndoPrepareToMarkClosed_def prepare_chunk_def find_or_read_buffer_def
          sizeof_UndoLogOffset_def UndoMarkClosed_def close_chunk_def buffer_at_def
          page_bytes_def write_update_ops_header_def write_update_ops_header_failure_def)
  obtain w2 where r2: "run example_config ?c2 full_log_world = Some w2"
    by (simp add: store_def UndoCreate_def UndoRelease_def release_buffers_def put_logs_def
          loop_unfold reserve_defs insert_defs example_defs undo_pointer_defs)
  obtain w3 where r3: "run example_config ?c3 full_log_world = Some w3"
    by (simp add: store_def UndoCreate_def example_defs
          UndoPrepareToMarkClosed_def UndoMarkClosed_def)
  note t1 = exit_panics_iff_record_set_left [OF f r1, unfolded n h1]
  note t2 = exit_panics_iff_record_set_left [OF f r2, unfolded n h2]
  note t3 = exit_panics_iff_record_set_left [OF f r3, unfolded n h3]
  from t1 have "heap w1 0 = None \<and> UndoRecordSetList w1 = [] \<and> proc_exit w1 = Inr ()"
    by simp
  moreover from t2 have "map_option closed (heap w2 0) = Some False \<and> set (UndoRecordSetList w2) = {0} \<and>
        proc_exit w2 = Inl (PANIC ''undo record set not closed before backend exit'')"
    by simp
  moreover from t3 have "map_option closed (heap w3 0) = Some True \<and> set (UndoRecordSetList w3) = {0} \<and>
        proc_exit w3 = Inl (PANIC ''undo record set not closed before backend exit'')"
    by simp
  ultimately show ?thesis
    using f r1 r2 r3 by blast
qed

subsection \<open>Reserving space, and where the type header goes\<close>

text \<open>
  C5.  The property describes the loop of \<^verbatim>\<open>reserve_physical_undo\<close> and ends: "across
  any number of such new chunks the type header is emitted exactly once per record set,
  in its first chunk only".  The flag \<^verbatim>\<open>need_type_header\<close> is cleared by the first
  \<^verbatim>\<open>UndoInsert\<close> and by nothing else, so the type header is written with the first
  insertion, into whatever chunk is the last one at that time.  When the first log that
  the allocator hands out has too little room for the first request, that chunk is the
  second one.  Here a record set is created; the allocator hands out log 1, with 100
  bytes left below the maximum size, and then the empty log 2; 100 bytes are allocated
  and inserted.  The reservation leaves the type header pending (second component),
  the insertion clears it (third); the record set has two chunks, on logs 1 and 2, with
  header offsets 1099511627676 and 24; the active log is log 2; the insert position of
  log 1 has not moved, so nothing was written to the first chunk; the insert position of
  log 2 has moved from 24 to 156 (chunk header 24, type header 8, data 100), the pointer
  returned for the data is offset 56 of log 2; the chunk header and the type header were
  attached to the WAL record of the one page dirtied, buffer 200, which is block 0 of
  log 2.
\<close>

theorem type_header_lands_in_second_chunk:
  "(case UndoCreate URST_FOO (CHR ''p'') full_log_world of
      (Inl e, w) \<Rightarrow> None
    | (Inr a, w) \<Rightarrow>
        (case heap w a of
           None \<Rightarrow> None
         | Some urs \<Rightarrow>
             (case UndoAllocate example_config 100 (urs, w) of
                Inl e \<Rightarrow> None
              | Inr (p, urs1, w1) \<Rightarrow>
                  (case UndoInsert example_config 0 (replicate 100 7) (urs1, w1) of
                     Inl e \<Rightarrow> None
                   | Inr (urs2, w2) \<Rightarrow>
                       Some (p, need_type_header urs1, need_type_header urs2,
                             map chunk_slot (chunks urs2), map chunk_header_offset (chunks urs2),
                             slot urs2,
                             meta_insert (slots w2 1), meta_insert (slots w2 2),
                             filter (\<lambda>c. case c of XLogRegisterBufData i d \<Rightarrow> True | _ \<Rightarrow> False) (calls w2),
                             filter (\<lambda>c. case c of MarkBufferDirty b \<Rightarrow> True | _ \<Rightarrow> False) (calls w2))))))
   = Some (MakeUndoRecPtr 2 56, True, False, [1, 2], [1099511627676, 24], Some 2,
           1099511627676, 156,
           [XLogRegisterBufData 0 [24],
            XLogRegisterBufData 0
              ([0, 0, 0, 0, 0, 0, 0, 0,  0, 0, 0, 0, 0, 0, 0, 0,  2, 0, 0, 0] @ replicate 4 0),
            XLogRegisterBufData 0 [8],
            XLogRegisterBufData 0 (replicate 8 0)],
           [MarkBufferDirty 200])"
  by (simp add: UndoCreate_def loop_unfold reserve_defs insert_defs example_defs undo_pointer_defs)

subsection \<open>Insert replay with a block that is not found\<close>

text \<open>
  C7.  The property says that when a block of the record is reported not found, insert
  replay copies neither the attached header entries nor the payload to any buffer, and
  still advances the insert pointer of the log and returns the pointer to the payload.
  \<^verbatim>\<open>UndoInsertInRecovery\<close> guards \<^verbatim>\<open>begin_append\<close> and the append of the payload with
  \<^verbatim>\<open>if (!skip)\<close>, but not the append of the header entries in the loop over the
  opcodes.  For a record whose only undo block is not found and carries one insert
  entry of two bytes, the loop calls \<^verbatim>\<open>append_bytes\<close> on the local variable \<^verbatim>\<open>state\<close>,
  which no \<^verbatim>\<open>begin_append\<close> has initialised: the function does not get as far as
  advancing the insert pointer.
\<close>

theorem header_replay_reads_uninitialised_state:
  "UndoInsertInRecovery example_config notfound_record [1, 2, 3] recovery_world =
     Inl (UNDEFINED ''state is read uninitialised'')"
  by (simp add: UndoInsertInRecovery_def insert_block_def append_bytes_local_def
        replay_insert_ops_unfold example_defs undo_pointer_defs reserve_defs)

subsection \<open>The assertion of UndoAllocate\<close>

lemma UndoRelease_error:
  "UndoRelease a w = Inl e \<Longrightarrow> e \<noteq> AssertFailed ''urs->nbuffers == 0''"
  by (auto simp: UndoRelease_def Let_def split: option.splits if_splits)

lemma pending_type_header_size_error:
  "pending_type_header_size urs = Inl e \<Longrightarrow> e = ERROR ''unknown UndoRecordSetType''"
  by (cases "urs_type urs") (auto simp: pending_type_header_size_def split: if_splits)

lemma UndoAllocate_assertion_holds:
  "nbuffers urs = 0 \<Longrightarrow> UndoAllocate cfg n (urs, w) \<noteq> Inl (AssertFailed ''urs->nbuffers == 0'')"
  by (auto simp: UndoAllocate_def Let_def reserve_buffer_array_def
           split: sum.splits prod.splits if_splits
           dest: reserve_physical_undo_error reserve_physical_undo_keeps pin_buffers_error
                 pending_type_header_size_error)

lemma UndoAllocate_assertion_fails:
  assumes "0 < nbuffers urs"
  shows "UndoAllocate cfg n (urs, w) \<noteq> Inr r"
    and "reserve_physical_undo cfg n (urs, w) = Inr (b, urs', w') \<Longrightarrow>
         pending_type_header_size urs' = Inr k \<Longrightarrow>
         UndoAllocate cfg n (urs, w) = Inl (AssertFailed ''urs->nbuffers == 0'')"
  using assms
  by (auto simp: UndoAllocate_def Let_def reserve_buffer_array_def
           split: sum.splits prod.splits if_splits dest: reserve_physical_undo_keeps)

lemma cycle_error:
  assumes "\<forall>urs. heap w a = Some urs \<longrightarrow> nbuffers urs = 0"
  shows "cycle cfg a req w \<noteq> Inl (AssertFailed ''urs->nbuffers == 0'')"
proof (cases "heap w a")
  case None
  then show ?thesis by (cases req) (simp add: cycle_def)
next
  case (Some urs)
  with assms have "nbuffers urs = 0" by simp
  then have "UndoAllocate cfg n (urs, w) \<noteq> Inl (AssertFailed ''urs->nbuffers == 0'')" for n
    by (rule UndoAllocate_assertion_holds)
  with Some show ?thesis
    by (cases req)
       (auto simp: cycle_def split: sum.splits prod.splits
             dest: UndoInsert_error UndoRelease_error)
qed

lemma cycle_leaves_none_pinned:
  "cycle cfg a req w = Inr w' \<Longrightarrow> heap w' a = Some urs \<Longrightarrow> nbuffers urs = 0"
  by (cases req)
     (auto simp: cycle_def UndoRelease_def Let_def release_buffers_frame put_logs_frame
           split: sum.splits prod.splits option.splits if_splits)

lemma cycles_error:
  "\<forall>urs. heap w a = Some urs \<longrightarrow> nbuffers urs = 0 \<Longrightarrow>
     cycles cfg a reqs w \<noteq> Inl (AssertFailed ''urs->nbuffers == 0'')"
proof (induction reqs arbitrary: w)
  case Nil
  then show ?case by simp
next
  case (Cons r rs)
  show ?case
  proof (cases "cycle cfg a r w")
    case (Inl e)
    with cycle_error [OF Cons.prems, of cfg r] show ?thesis by auto
  next
    case (Inr w')
    then have "\<forall>urs. heap w' a = Some urs \<longrightarrow> nbuffers urs = 0"
      using cycle_leaves_none_pinned by blast
    from Cons.IH [OF this] Inr show ?thesis by simp
  qed
qed

lemma UndoCreate_none_pinned:
  "UndoCreate t p w0 = (Inr a, w) \<Longrightarrow> \<exists>urs. heap w a = Some urs \<and> nbuffers urs = 0"
  by (auto simp: UndoCreate_def Let_def split: sum.splits if_splits)

lemma UndoAllocate_pins:
  assumes "UndoAllocate cfg n (urs, w) = Inr (p, urs1, w1)"
  shows "\<exists>k. pending_type_header_size urs1 = Inr k \<and>
           (0 < nbuffers urs1 \<longleftrightarrow> (n + pending_chunk_header_size urs1 + k) mod 2 ^ 64 \<noteq> 0)"
proof -
  from assms obtain b urs' w' k urs2 w2 where
    r: "reserve_physical_undo cfg n (urs, w) = Inr (b, urs', w')"
    and t: "pending_type_header_size urs' = Inr k"
    and z: "nbuffers (reserve_buffer_array
              ((n + pending_chunk_header_size urs' + k) mod 2 ^ 64 div BLCKSZ cfg + 2) urs') = 0"
    and pin: "pin_buffers cfg b ((n + pending_chunk_header_size urs' + k) mod 2 ^ 64)
               (reserve_buffer_array
                  ((n + pending_chunk_header_size urs' + k) mod 2 ^ 64 div BLCKSZ cfg + 2) urs', w')
              = Inr (urs2, w2)"
    and u: "urs1 = urs2"
    by (auto simp: UndoAllocate_def Let_def split: sum.splits prod.splits if_splits)
  let ?total = "(n + pending_chunk_header_size urs' + k) mod 2 ^ 64"
  let ?u = "reserve_buffer_array (?total div BLCKSZ cfg + 2) urs'"
  from pin_buffers_grows [OF pin] u
  have g: "0 < ?total \<longrightarrow> nbuffers ?u < nbuffers urs1"
    and fc: "need_chunk_header urs1 = need_chunk_header ?u"
    and ft: "need_type_header urs1 = need_type_header ?u"
    and ty: "urs_type urs1 = urs_type ?u"
    by simp_all
  have same: "pending_chunk_header_size urs1 = pending_chunk_header_size urs'"
    "pending_type_header_size urs1 = pending_type_header_size urs'"
    using fc ft ty
    by (simp_all add: reserve_buffer_array_def pending_chunk_header_size_def
          pending_type_header_size_def)
  have "nbuffers urs1 = 0" if "?total = 0"
    using that pin u z by (simp add: pin_buffers_nothing)
  with g z have "0 < nbuffers urs1 \<longleftrightarrow> ?total \<noteq> 0"
    by auto
  with same t show ?thesis
    by simp
qed




subsection \<open>The page cursor\<close>

lemma le_value_le_bytes: "le_value (le_bytes n v) = v mod 256 ^ n"
proof (induction n arbitrary: v)
  case 0
  then show ?case by simp
next
  case (Suc n)
  have "le_value (le_bytes (Suc n) v) = v mod 256 + 256 * (v div 256 mod 256 ^ n)"
    by (simp add: Suc.IH unat_of_nat)
  also have "\<dots> = v mod (256 * 256 ^ n)"
    by (simp add: mod_mult2_eq)
  finally show ?case by simp
qed

lemma length_le_bytes [simp]: "length (le_bytes n v) = n"
  by (induction n arbitrary: v) simp_all

lemma mod_add_within:
  fixes p k B :: nat
  assumes "p mod B + k < B"
  shows "(p + k) mod B = p mod B + k" and "(p + k) div B = p div B"
proof -
  from assms have B: "0 < B" by auto
  have "p + k = p div B * B + (p mod B + k)" by simp
  then have m: "(p + k) mod B = (p mod B + k) mod B" and d: "(p + k) div B = p div B + (p mod B + k) div B"
    by (metis mod_mult_self3, metis B div_mult_self3 less_numeral_extra(3))
  from m assms show "(p + k) mod B = p mod B + k" by simp
  from d assms show "(p + k) div B = p div B" by simp
qed

lemma plus_usable_within_page:
  assumes "UndoLogBlockHeaderSize cfg \<le> off mod BLCKSZ cfg"
    and "off mod BLCKSZ cfg + n < BLCKSZ cfg"
  shows "UndoLogOffsetPlusUsableBytes cfg off n = off + n"
proof -
  let ?B = "BLCKSZ cfg" and ?H = "UndoLogBlockHeaderSize cfg"
  let ?U = "?B - ?H"
  let ?k = "off mod ?B - ?H + n"
  from assms have U: "0 < ?U" and k: "?k < ?U" by auto
  have d: "(off div ?B * ?U + ?k) div ?U = off div ?B"
    using U k by simp
  have m: "(off div ?B * ?U + ?k) mod ?U = ?k"
    using U k by simp
  have "UndoLogOffsetPlusUsableBytes cfg off n = off div ?B * ?B + ?H + ?k"
    unfolding UndoLogOffsetPlusUsableBytes_def Let_def
    using d m by (simp add: add.assoc)
  also have "\<dots> = off div ?B * ?B + off mod ?B + n"
    using assms by simp
  also have "\<dots> = off + n"
    by simp
  finally show ?thesis .
qed

lemma pd_lower_after_append:
  assumes "14 \<le> off" and "off + length src \<le> length (contents pg)" and "v < 65536"
  shows "\<exists>pg1 bs. set_pd_lower v pg = Some pg1 \<and>
           memcpy_page (contents pg1) off src = Some bs \<and>
           length bs = length (contents pg) \<and>
           pd_lower (pg1\<lparr>contents := bs\<rparr>) = v"
proof -
  let ?c = "contents pg"
  let ?c1 = "take 12 ?c @ le_bytes 2 v @ drop 14 ?c"
  let ?c2 = "take off ?c1 @ src @ drop (off + length src) ?c1"
  from assms have l: "14 \<le> length ?c" by simp
  then have l1: "length ?c1 = length ?c"
    by (simp del: le_bytes_numeral)
  have s: "set_pd_lower v pg = Some (pg\<lparr>contents := ?c1\<rparr>)"
    using l by (simp add: set_pd_lower_def memcpy_page_def del: le_bytes_numeral)
  have m: "memcpy_page (contents (pg\<lparr>contents := ?c1\<rparr>)) off src = Some ?c2"
    using assms l1 by (simp add: memcpy_page_def del: le_bytes_numeral)
  have l2: "length ?c2 = length ?c"
    using assms l1 by (simp del: le_bytes_numeral)
  have "take 2 (drop 12 ?c2) = take 2 (drop 12 (take off ?c1))"
    using assms l1 by (simp del: le_bytes_numeral)
  also have "\<dots> = take 2 (drop 12 ?c1)"
    using assms by (simp add: drop_take min_def del: le_bytes_numeral)
  also have "\<dots> = le_bytes 2 v"
    using l by (simp del: le_bytes_numeral)
  finally have "pd_lower ((pg\<lparr>contents := ?c1\<rparr>)\<lparr>contents := ?c2\<rparr>) = v"
    using assms(3) by (simp add: pd_lower_def le_value_le_bytes del: le_bytes_numeral)
  with s m l2 show ?thesis
    by blast
qed

lemma append_bytes_nothing: "append_bytes cfg data 0 sw = Inr sw"
  by (simp add: append_bytes.simps [of cfg data 0 sw])

lemma append_bytes_within_page:
  assumes b16: "BLCKSZ cfg \<le> 2 ^ 16"
    and st: "buffer_index st = 0" "buffers_st st = bufs" "bufs \<noteq> []"
    and len: "length (contents (pages w (bufs ! 0))) = BLCKSZ cfg"
    and q: "urp_offset (insert_st st) = q"
    and hdr: "14 \<le> q mod BLCKSZ cfg"
    and fit: "q mod BLCKSZ cfg + sz < BLCKSZ cfg"
    and sz: "sz \<le> length data"
  shows "\<exists>st' w'. append_bytes cfg data sz (st, w) = Inr (st', w') \<and>
           buffer_index st' = 0 \<and> buffers_st st' = bufs \<and>
           length (contents (pages w' (bufs ! 0))) = BLCKSZ cfg \<and>
           urp_offset (insert_st st') = q + sz \<and>
           slots w' = slots w \<and> InRecovery w' = InRecovery w \<and>
           (if 0 < sz then pd_lower (pages w' (bufs ! 0)) = q mod BLCKSZ cfg
            else pages w' = pages w)"
proof (cases "sz = 0")
  case True
  with st len q show ?thesis
    by (simp add: append_bytes_nothing)
next
  case False
  let ?off = "q mod BLCKSZ cfg"
  let ?buf = "bufs ! 0"
  let ?st1 = "st\<lparr>last_buffer_index := int (buffer_index st)\<rparr>"
  from fit have bpos: "BLCKSZ cfg \<noteq> 0" by auto
  have n: "min (BLCKSZ cfg - ?off) sz = sz" using fit by simp
  have l: "length (take sz data) = sz" using sz by simp
  from fit b16 have v: "?off < 65536" by simp
  from pd_lower_after_append [of ?off "take sz data" "pages w ?buf" ?off] hdr fit len l v
  obtain pg1 bs where s: "set_pd_lower ?off (pages w ?buf) = Some pg1"
    and m: "memcpy_page (contents pg1) ?off (take sz data) = Some bs"
    and lb: "length bs = BLCKSZ cfg"
    and pl: "pd_lower (pg1\<lparr>contents := bs\<rparr>) = ?off"
    by auto
  let ?w1 = "snd (touch_buffer cfg ?off (st, w))"
  let ?w2 = "?w1\<lparr>pages := (pages ?w1)(?buf := pg1\<lparr>contents := bs\<rparr>)\<rparr>"
  let ?st2 = "?st1\<lparr>insert_st := (insert_st st)\<lparr>urp_offset := q + sz\<rparr>\<rparr>"
  have a: "append_bytes cfg data sz (st, w) = Inr (?st2, ?w2)"
    using False bpos st q fit
    apply (subst append_bytes.simps)
    apply (simp add: Let_def UndoRecPtrGetPageOffset_def n s m touch_buffer_frame
             append_bytes_nothing)
    done
  have "buffer_index ?st2 = 0 \<and> buffers_st ?st2 = bufs \<and>
        length (contents (pages ?w2 ?buf)) = BLCKSZ cfg \<and>
        urp_offset (insert_st ?st2) = q + sz \<and>
        slots ?w2 = slots w \<and> InRecovery ?w2 = InRecovery w \<and>
        pd_lower (pages ?w2 ?buf) = ?off"
    using st lb pl by (simp add: touch_buffer_frame)
  with a False show ?thesis
    by auto
qed

lemma do_call_frame:
  "pages (do_call c w) = pages w"
  "slots (do_call c w) = slots w"
  "InRecovery (do_call c w) = InRecovery w"
  by (simp_all add: do_call_def)

lemma UndoInsert_within_page:
  assumes cfg: "14 \<le> UndoLogBlockHeaderSize cfg" "BLCKSZ cfg \<le> 2 ^ 16"
    and fw: "\<not> InRecovery w" "slot urs = Some l" "buffers urs \<noteq> []"
      "length (contents (pages w (buffers urs ! 0))) = BLCKSZ cfg"
    and hs: "hs = pending_chunk_header_size urs
                  + (if need_type_header urs then type_header_size urs else 0)"
    and pos: "UndoLogBlockHeaderSize cfg \<le> meta_insert (slots w l) mod BLCKSZ cfg"
      "meta_insert (slots w l) mod BLCKSZ cfg + hs + length data < BLCKSZ cfg"
      "data \<noteq> []"
  shows "\<exists>urs' w'. UndoInsert cfg fbi data (urs, w) = Inr (urs', w') \<and>
           pd_lower (pages w' (buffers urs ! 0)) = meta_insert (slots w l) mod BLCKSZ cfg + hs \<and>
           meta_insert (slots w' l) = meta_insert (slots w l) + hs + length data"
proof -
  let ?p = "meta_insert (slots w l)"
  let ?B = "BLCKSZ cfg"
  let ?buf = "buffers urs ! 0"
  let ?chs = "if need_chunk_header urs then UndoRecordSetChunkHeaderSize else 0"
  let ?ths = "if need_type_header urs then type_header_size urs else 0"
  let ?st0 = "begin_append (buffers urs) fbi (MakeUndoRecPtr 0 ?p)"
  let ?hdr = "\<lparr>hdr_size = 0, hdr_previous_chunk = previous_chunk urs, hdr_type = urs_type urs\<rparr>"
  let ?img = "chunk_header_image cfg ?hdr"
  let ?zeroes = "replicate (type_header_size urs) (0 :: byte)"
  let ?reg1 = "\<lambda>w'. do_call (XLogRegisterBufData fbi ?img)
                  (do_call (XLogRegisterBufData fbi [of_nat UndoRecordSetChunkHeaderSize]) w')"
  let ?reg2 = "\<lambda>w'. do_call (XLogRegisterBufData fbi ?zeroes)
                  (do_call (XLogRegisterBufData fbi [of_nat (type_header_size urs)]) w')"
  have hs': "hs = ?chs + ?ths"
    using hs by (simp add: pending_chunk_header_size_def)
  have s0: "buffer_index ?st0 = 0" "buffers_st ?st0 = buffers urs"
    and q0: "urp_offset (insert_st ?st0) = ?p"
    by (simp_all add: begin_append_def MakeUndoRecPtr_def)
  have h0: "14 \<le> ?p mod ?B"
    using cfg(1) pos(1) by simp
  have l1: "UndoRecordSetChunkHeaderSize \<le> length ?img"
    by (simp add: chunk_header_image_def UndoRecordSetChunkHeaderSize_def del: le_bytes_numeral)
  have l2: "type_header_size urs \<le> length ?zeroes"
    by simp
  have m: "(?p + k) mod ?B = ?p mod ?B + k" if "k \<le> hs" for k
    using pos(2) that by (intro mod_add_within(1)) simp
  have "\<exists>st1 w1. (if need_chunk_header urs
                   then append_bytes cfg ?img UndoRecordSetChunkHeaderSize (?st0, w) = Inr (st1, w1)
                   else st1 = ?st0 \<and> w1 = w) \<and>
          buffer_index st1 = 0 \<and> buffers_st st1 = buffers urs \<and>
          length (contents (pages w1 ?buf)) = ?B \<and>
          urp_offset (insert_st st1) = ?p + ?chs \<and>
          slots w1 = slots w \<and> InRecovery w1 = InRecovery w"
  proof (cases "need_chunk_header urs")
    case True
    have "?p mod ?B + UndoRecordSetChunkHeaderSize < ?B"
      using pos(2) hs' True by simp
    from append_bytes_within_page [OF cfg(2) s0 fw(3,4) q0 h0 this l1] True
    show ?thesis by auto
  next
    case False
    with s0 q0 fw(4) show ?thesis by simp
  qed
  then obtain st1 w1' where
    a1: "if need_chunk_header urs
         then append_bytes cfg ?img UndoRecordSetChunkHeaderSize (?st0, w) = Inr (st1, w1')
         else st1 = ?st0 \<and> w1' = w"
    and s1: "buffer_index st1 = 0" "buffers_st st1 = buffers urs"
    and len1': "length (contents (pages w1' ?buf)) = ?B"
    and q1: "urp_offset (insert_st st1) = ?p + ?chs"
    and fr1': "slots w1' = slots w" "InRecovery w1' = InRecovery w"
    by blast
  let ?w1 = "if need_chunk_header urs then ?reg1 w1' else w1'"
  have len1: "length (contents (pages ?w1 ?buf)) = ?B"
    and fr1: "slots ?w1 = slots w"
    using len1' fr1' by (simp_all add: do_call_frame)
  have h1: "14 \<le> (?p + ?chs) mod ?B"
    using h0 m [of ?chs] hs' by simp
  have "\<exists>st2 w2. (if need_type_header urs
                   then append_bytes cfg ?zeroes (type_header_size urs) (st1, ?w1) = Inr (st2, w2)
                   else st2 = st1 \<and> w2 = ?w1) \<and>
          buffer_index st2 = 0 \<and> buffers_st st2 = buffers urs \<and>
          length (contents (pages w2 ?buf)) = ?B \<and>
          urp_offset (insert_st st2) = ?p + ?chs + ?ths \<and>
          slots w2 = slots w"
  proof (cases "need_type_header urs")
    case True
    have "(?p + ?chs) mod ?B + type_header_size urs < ?B"
      using pos(2) hs' True m [of ?chs] by simp
    from append_bytes_within_page [OF cfg(2) s1 fw(3) len1 q1 h1 this l2] True fr1
    show ?thesis by auto
  next
    case False
    with s1 q1 len1 fr1 show ?thesis by simp
  qed
  then obtain st2 w2' where
    a2: "if need_type_header urs
         then append_bytes cfg ?zeroes (type_header_size urs) (st1, ?w1) = Inr (st2, w2')
         else st2 = st1 \<and> w2' = ?w1"
    and s2: "buffer_index st2 = 0" "buffers_st st2 = buffers urs"
    and len2': "length (contents (pages w2' ?buf)) = ?B"
    and q2: "urp_offset (insert_st st2) = ?p + ?chs + ?ths"
    and fr2': "slots w2' = slots w"
    by blast
  let ?w2 = "if need_type_header urs then ?reg2 w2' else w2'"
  have len2: "length (contents (pages ?w2 ?buf)) = ?B"
    using len2' by (simp add: do_call_frame)
  have q2': "urp_offset (insert_st st2) = ?p + hs"
    using q2 hs' by simp
  have h2: "14 \<le> (?p + hs) mod ?B"
    using h0 m [of hs] by simp
  have f3: "(?p + hs) mod ?B + length data < ?B"
    using pos(2) m [of hs] by simp
  from append_bytes_within_page [OF cfg(2) s2 fw(3) len2 q2' h2 f3 order_refl] pos(3)
  obtain st3 w3 where
    a3: "append_bytes cfg data (length data) (st2, ?w2) = Inr (st3, w3)"
    and q3: "urp_offset (insert_st st3) = ?p + hs + length data"
    and pl: "pd_lower (pages w3 ?buf) = (?p + hs) mod ?B"
    by auto
  have pl': "pd_lower (pages w3 ?buf) = ?p mod ?B + hs"
    using pl m [of hs] by simp
  show ?thesis
  proof (cases "need_chunk_header urs")
    case c: True
    show ?thesis
    proof (cases "need_type_header urs")
      case t: True
      from c t a1 a2 a3 fw(1,2) q3 pl' show ?thesis
        by (simp add: UndoInsert_def Let_def)
    next
      case t: False
      from c t a1 a2 a3 fw(1,2) q3 pl' show ?thesis
        by (simp add: UndoInsert_def Let_def)
    qed
  next
    case c: False
    show ?thesis
    proof (cases "need_type_header urs")
      case t: True
      from c t a1 a2 a3 fw(1,2) q3 pl' show ?thesis
        by (simp add: UndoInsert_def Let_def)
    next
      case t: False
      from c t a1 a2 a3 fw(1,2) q3 pl' show ?thesis
        by (simp add: UndoInsert_def Let_def)
    qed
  qed
qed

lemma set_lsn_and_release_slots: "slots (set_lsn_and_release lsn bs w) = slots w"
  unfolding set_lsn_and_release_def
  by (induction bs arbitrary: w) (simp_all add: do_call_def)

lemma UndoInsertInRecovery_restored:
  assumes b16: "BLCKSZ cfg \<le> 2 ^ 16"
    and rec: "InRecovery wr"
    and c: "pd_lower (pages wr b) = c" "UndoLogBlockHeaderSize cfg \<le> c" "c \<noteq> 0"
    and fit: "c + length data < BLCKSZ cfg"
    and u32: "BLCKSZ cfg * blk + c < 2 ^ 32"
  shows "\<exists>wr'. UndoInsertInRecovery cfg
                  \<lparr>blocks = [\<lparr>in_use = True, is_undo = True, relNode = l, blkno = blk,
                               will_init = False, block_data = None,
                               redo_action = BLK_RESTORED, redo_buffer = b\<rparr>],
                   ReadRecPtr = lsn\<rparr> data wr
                = Inr (MakeUndoRecPtr l (BLCKSZ cfg * blk + c), wr') \<and>
               meta_insert (slots wr' l) = BLCKSZ cfg * blk + c + length data"
proof -
  let ?x = "BLCKSZ cfg * blk + c"
  from fit have cB: "c < BLCKSZ cfg" by simp
  then have xm: "?x mod BLCKSZ cfg = c" by simp
  have x32: "?x mod 4294967296 = ?x" using u32 by simp
  have n64: "length data mod 18446744073709551616 = length data" using fit b16 by simp
  have p0: "UndoLogOffsetPlusUsableBytes cfg ?x 0 = ?x"
    using plus_usable_within_page [of cfg ?x 0] c(2) cB xm by simp
  have pn: "UndoLogOffsetPlusUsableBytes cfg ?x (length data) = ?x + length data"
    using plus_usable_within_page [of cfg ?x "length data"] c(2) fit xm by simp
  show ?thesis
    using rec c(1,3)
    by (simp add: UndoInsertInRecovery_def insert_block_def Let_def UndoLogAdjustPhysicalRange_def
          set_lsn_and_release_slots UndoRecPtrPlusUsableBytes_def MakeUndoRecPtr_def
          x32 n64 p0 pn)
qed




end
